theory Spec2Isabelle
  imports Complex_Main "HOL-Library.AList"
begin

section \<open>Time provider (src/src/time\_provider.py)\<close>

text \<open>
  Python floats are modelled as rationals: sorting, indexing and the arithmetic of the
  median are exact here, the rounding of IEEE doubles is outside the model. A dictionary is
  an association list in insertion order; \<open>AList.update\<close> is Python's \<open>d[k] = v\<close>
  (overwrite in place, else append).
\<close>

record TimeServerResponse =
  server :: string
  resp_timestamp :: rat
  offset :: rat
  delay :: rat
  stratum :: int
  success :: bool
  error :: "string option"

record TimeSettings =
  update_interval :: rat
  time_servers :: "string list"

record TimeProvider =
  tp_settings :: TimeSettings
  time_offsets :: "(string \<times> rat) list"
  last_sync_time :: rat
  total_syncs :: int
  successful_syncs :: int
  failed_syncs :: int

text \<open>
  What one call sees of the outside world: the answer of the NTP client and of the HTTP
  time API for each address (\<open>Inl\<close> is the message of the exception raised), the local
  clock \<open>time.time()\<close>, and whether \<open>sync_lock.acquire(blocking=False)\<close> succeeds.
\<close>

record ntp_stats =
  tx_time :: rat
  ntp_offset :: rat
  ntp_delay :: rat
  ntp_stratum :: int

record time_env =
  ntp_request :: "string \<Rightarrow> string + ntp_stats"
  http_datetime :: "string \<Rightarrow> string + rat"
  clock :: rat
  lock_acquired :: bool

definition get_ntp_time :: "time_env \<Rightarrow> string \<Rightarrow> TimeServerResponse" where
  "get_ntp_time env srv =
     (case ntp_request env srv of
        Inr r \<Rightarrow> \<lparr>server = srv, resp_timestamp = tx_time r, offset = ntp_offset r,
                  delay = ntp_delay r, stratum = ntp_stratum r, success = True, error = None\<rparr>
      | Inl e \<Rightarrow> \<lparr>server = srv, resp_timestamp = 0, offset = 0, delay = 0, stratum = 0,
                  success = False, error = Some e\<rparr>)"

definition get_http_time :: "time_env \<Rightarrow> string \<Rightarrow> TimeServerResponse" where
  "get_http_time env url =
     (case http_datetime env url of
        Inr ts \<Rightarrow> \<lparr>server = url, resp_timestamp = ts, offset = ts - clock env,
                   delay = 0, stratum = 1, success = True, error = None\<rparr>
      | Inl e \<Rightarrow> \<lparr>server = url, resp_timestamp = 0, offset = 0, delay = 0, stratum = 0,
                  success = False, error = Some e\<rparr>)"

definition http_apis :: "string list" where
  "http_apis = [''http://worldtimeapi.org/api/timezone/UTC'',
                ''https://timeapi.io/api/Time/current/zone?timeZone=UTC'']"

definition sync_all_servers :: "time_env \<Rightarrow> TimeProvider \<Rightarrow> TimeServerResponse list" where
  "sync_all_servers env tp =
     map (get_ntp_time env) (time_servers (tp_settings tp)) @ map (get_http_time env) http_apis"

text \<open>The loop of \<open>_sync_with_servers\<close> that collects the successful offsets.\<close>

fun collect_offsets :: "TimeServerResponse list \<Rightarrow> (string \<times> rat) list \<Rightarrow> (string \<times> rat) list" where
  "collect_offsets [] new_offsets = new_offsets"
| "collect_offsets (r # rs) new_offsets =
     (if success r then collect_offsets rs (AList.update (server r) (offset r) new_offsets)
      else collect_offsets rs new_offsets)"

definition sync_with_servers :: "time_env \<Rightarrow> TimeProvider \<Rightarrow> TimeProvider" where
  "sync_with_servers env tp =
     (if \<not> lock_acquired env then tp
      else
        let tp1 = tp\<lparr>total_syncs := total_syncs tp + 1\<rparr>;
            responses = sync_all_servers env tp1;
            new_offsets = collect_offsets responses []
        in if new_offsets \<noteq> [] then
             tp1\<lparr>time_offsets := new_offsets,
                 successful_syncs := successful_syncs tp1 + 1,
                 last_sync_time := clock env\<rparr>
           else tp1\<lparr>failed_syncs := failed_syncs tp1 + 1\<rparr>)"

text \<open>
  The constructor: a fresh lock is always acquired by the initial synchronisation.
\<close>

definition TimeProvider_init :: "TimeSettings \<Rightarrow> time_env \<Rightarrow> TimeProvider" where
  "TimeProvider_init st env =
     sync_with_servers (env\<lparr>lock_acquired := True\<rparr>)
       \<lparr>tp_settings = st, time_offsets = [], last_sync_time = 0,
        total_syncs = 0, successful_syncs = 0, failed_syncs = 0\<rparr>"

definition force_sync :: "time_env \<Rightarrow> TimeProvider \<Rightarrow> bool \<times> TimeProvider" where
  "force_sync env tp =
     (let old_count = successful_syncs tp; tp' = sync_with_servers env tp
      in (successful_syncs tp' > old_count, tp'))"

text \<open>
  \<open>get_current_time\<close>: the value returned is the POSIX time handed to
  \<open>datetime.fromtimestamp(_, timezone.utc)\<close>; the datetime is identified with it.
\<close>

definition get_current_time :: "rat \<Rightarrow> TimeProvider \<Rightarrow> rat" where
  "get_current_time current_time tp =
     (if time_offsets tp \<noteq> [] then
        let offsets = sort (map snd (time_offsets tp));
            n = length offsets;
            median_offset =
              (if n mod 2 = 0 then (offsets ! (n div 2 - 1) + offsets ! (n div 2)) / 2
               else offsets ! (n div 2))
        in current_time + median_offset
      else current_time)"

text \<open>
  \<open>get_time_server_verification\<close>: refreshes when the last synchronisation is older than
  the update interval, then reports, per server, the derived time, the offset and the time
  of the last synchronisation.
\<close>

definition get_time_server_verification ::
  "time_env \<Rightarrow> TimeProvider \<Rightarrow> (string \<times> rat \<times> rat \<times> rat) list \<times> TimeProvider" where
  "get_time_server_verification env tp =
     (let tp' = (if clock env - last_sync_time tp > update_interval (tp_settings tp)
                 then sync_with_servers env tp else tp)
      in (map (\<lambda>(srv, off). (srv, clock env + off, off, last_sync_time tp')) (time_offsets tp'),
          tp'))"

text \<open>
  The median in the words of the specification: 0 for no value, the middle value of the
  sorted values for an odd number of them, the average of the two middle ones otherwise.
\<close>

definition spec_median :: "rat list \<Rightarrow> rat" where
  "spec_median xs =
     (if xs = [] then 0
      else if even (length xs)
        then (sort xs ! (length xs div 2 - 1) + sort xs ! (length xs div 2)) / 2
        else sort xs ! (length xs div 2))"

text \<open>
  The states a time provider can be in: built by the constructor, then changed by its
  public operations under any answers of the outside world. Operations that only read
  (\<open>get_current_time\<close>, \<open>verify_timestamp\<close>, \<open>get_statistics\<close>) leave the state as it is.
\<close>

inductive tp_reachable :: "TimeProvider \<Rightarrow> bool" where
  tp_init: "tp_reachable (TimeProvider_init st env)"
| tp_force_sync: "tp_reachable tp \<Longrightarrow> tp_reachable (snd (force_sync env tp))"
| tp_verification: "tp_reachable tp \<Longrightarrow> tp_reachable (snd (get_time_server_verification env tp))"
| tp_sync: "tp_reachable tp \<Longrightarrow> tp_reachable (sync_with_servers env tp)"

definition stats_consistent :: "TimeProvider \<Rightarrow> bool" where
  "stats_consistent tp \<longleftrightarrow> total_syncs tp = successful_syncs tp + failed_syncs tp"

section \<open>Blockchain verifier (src/src/blockchain\_verifier.py)\<close>

record BlockchainInfo =
  chain :: string
  block_number :: int
  block_hash :: string
  block_time :: rat
  retrieved_at :: rat
  confirmations :: int

text \<open>
  \<open>enabled_chains\<close> is a Python set; the list is the order in which a loop visits it.
\<close>

record BlockchainSettings =
  enabled_chains :: "string list"
  cache_duration :: rat

record BlockchainVerifier =
  bv_settings :: BlockchainSettings
  cached_blocks :: "(string \<times> BlockchainInfo) list"
  last_update :: "(string \<times> rat) list"
  total_requests :: int
  successful_requests :: int
  failed_requests :: int
  cache_hits :: int

text \<open>
  The outside world of one call: for each endpoint, the block (height, hash, time) its
  requests yield, or \<open>None\<close> when a request fails, answers with another status or does
  not parse; the local clock; and, for the attempt on each chain, whether
  \<open>update_lock.acquire(blocking=False)\<close> succeeds (it fails while another thread is
  inside \<open>_update_chain\<close>).
\<close>

record chain_env =
  endpoint_block :: "string \<Rightarrow> (int \<times> string \<times> rat) option"
  chain_clock :: rat
  update_lock_acquired :: "string \<Rightarrow> bool"

definition block_from :: "chain_env \<Rightarrow> string \<Rightarrow> string \<Rightarrow> BlockchainInfo option" where
  "block_from env ch url =
     (case endpoint_block env url of
        None \<Rightarrow> None
      | Some (height, hash, ts) \<Rightarrow>
          Some \<lparr>chain = ch, block_number = height, block_hash = hash, block_time = ts,
                retrieved_at = chain_clock env, confirmations = 0\<rparr>)"

text \<open>The blockcypher endpoints report no block time: the handlers use the local clock.\<close>

definition block_from_now :: "chain_env \<Rightarrow> string \<Rightarrow> string \<Rightarrow> BlockchainInfo option" where
  "block_from_now env ch url =
     (case endpoint_block env url of
        None \<Rightarrow> None
      | Some (height, hash, ts) \<Rightarrow>
          Some \<lparr>chain = ch, block_number = height, block_hash = hash,
                block_time = chain_clock env, retrieved_at = chain_clock env,
                confirmations = 0\<rparr>)"

definition get_bitcoin_info :: "chain_env \<Rightarrow> BlockchainInfo option" where
  "get_bitcoin_info env =
     (case block_from env ''bitcoin'' ''https://blockstream.info/api'' of
        Some b \<Rightarrow> Some b
      | None \<Rightarrow>
          (case block_from env ''bitcoin'' ''https://mempool.space/api'' of
             Some b \<Rightarrow> Some b
           | None \<Rightarrow> block_from_now env ''bitcoin'' ''https://api.blockcypher.com/v1/btc/main''))"

definition get_ethereum_info :: "chain_env \<Rightarrow> BlockchainInfo option" where
  "get_ethereum_info env =
     block_from_now env ''ethereum'' ''https://api.blockcypher.com/v1/eth/main''"

definition get_litecoin_info :: "chain_env \<Rightarrow> BlockchainInfo option" where
  "get_litecoin_info env =
     block_from_now env ''litecoin'' ''https://api.blockcypher.com/v1/ltc/main''"

definition chain_handlers :: "(string \<times> (chain_env \<Rightarrow> BlockchainInfo option)) list" where
  "chain_handlers = [(''bitcoin'', get_bitcoin_info), (''ethereum'', get_ethereum_info),
                     (''litecoin'', get_litecoin_info)]"

text \<open>The endpoints the handler of a chain asks, in order.\<close>

definition handler_endpoints :: "string \<Rightarrow> string list" where
  "handler_endpoints ch =
     (if ch = ''bitcoin'' then [''https://blockstream.info/api'', ''https://mempool.space/api'',
                                ''https://api.blockcypher.com/v1/btc/main'']
      else if ch = ''ethereum'' then [''https://api.blockcypher.com/v1/eth/main'']
      else if ch = ''litecoin'' then [''https://api.blockcypher.com/v1/ltc/main'']
      else [])"

definition run_handler :: "chain_env \<Rightarrow> string \<Rightarrow> BlockchainInfo option" where
  "run_handler env ch = (case map_of chain_handlers ch of None \<Rightarrow> None | Some h \<Rightarrow> h env)"

definition update_chain :: "chain_env \<Rightarrow> string \<Rightarrow> BlockchainVerifier \<Rightarrow> bool \<times> BlockchainVerifier" where
  "update_chain env ch bv =
     (if \<not> update_lock_acquired env ch then (True, bv\<lparr>cache_hits := cache_hits bv + 1\<rparr>)
      else
        let bv1 = bv\<lparr>total_requests := total_requests bv + 1\<rparr>
        in case run_handler env ch of
             Some block_info \<Rightarrow>
               (True, bv1\<lparr>cached_blocks := AList.update ch block_info (cached_blocks bv1),
                          last_update := AList.update ch (chain_clock env) (last_update bv1),
                          successful_requests := successful_requests bv1 + 1\<rparr>)
           | None \<Rightarrow> (False, bv1\<lparr>failed_requests := failed_requests bv1 + 1\<rparr>))"

fun update_chains_loop ::
  "chain_env \<Rightarrow> string list \<Rightarrow> int \<Rightarrow> BlockchainVerifier \<Rightarrow> int \<times> BlockchainVerifier" where
  "update_chains_loop env [] success_count bv = (success_count, bv)"
| "update_chains_loop env (ch # chs) success_count bv =
     (case update_chain env ch bv of
        (ok, bv') \<Rightarrow> update_chains_loop env chs (if ok then success_count + 1 else success_count) bv')"

definition update_all_chains :: "chain_env \<Rightarrow> BlockchainVerifier \<Rightarrow> bool \<times> BlockchainVerifier" where
  "update_all_chains env bv =
     (case update_chains_loop env (enabled_chains (bv_settings bv)) 0 bv of
        (success_count, bv') \<Rightarrow> (success_count > 0, bv'))"

text \<open>\<open>if chain:\<close> is false for \<open>None\<close> and for the empty string.\<close>

definition force_update ::
  "chain_env \<Rightarrow> string option \<Rightarrow> BlockchainVerifier \<Rightarrow> bool \<times> BlockchainVerifier" where
  "force_update env chain_arg bv =
     (case chain_arg of
        None \<Rightarrow> update_all_chains env bv
      | Some ch \<Rightarrow> if ch \<noteq> [] then update_chain env ch bv else update_all_chains env bv)"

text \<open>
  \<open>_update_if_needed\<close> only starts a background thread for each stale chain; the list is
  the chains it starts one for. Such a thread runs \<open>update_chain\<close> at some later time.
  The readers return what the cache holds.
\<close>

definition update_if_needed :: "rat \<Rightarrow> BlockchainVerifier \<Rightarrow> string list" where
  "update_if_needed current_time bv =
     filter (\<lambda>ch. current_time - (case map_of (last_update bv) ch of None \<Rightarrow> 0 | Some t \<Rightarrow> t)
                    > cache_duration (bv_settings bv))
       (enabled_chains (bv_settings bv))"

definition get_blockchain_info :: "BlockchainVerifier \<Rightarrow> string \<Rightarrow> BlockchainInfo option" where
  "get_blockchain_info bv ch = map_of (cached_blocks bv) ch"

definition get_blockchain_hashes :: "BlockchainVerifier \<Rightarrow> (string \<times> string) list" where
  "get_blockchain_hashes bv =
     map (\<lambda>(ch, block_info). (ch, block_hash block_info))
       (filter (\<lambda>(ch, block_info). ch \<in> set (enabled_chains (bv_settings bv))) (cached_blocks bv))"

text \<open>The chains one call of \<open>force_update\<close> attempts.\<close>

definition attempted_chains :: "string option \<Rightarrow> BlockchainVerifier \<Rightarrow> string list" where
  "attempted_chains chain_arg bv =
     (case chain_arg of
        None \<Rightarrow> enabled_chains (bv_settings bv)
      | Some ch \<Rightarrow> if ch \<noteq> [] then [ch] else enabled_chains (bv_settings bv))"

section \<open>Python values and exceptions\<close>

text \<open>
  The values that JSON text denotes and that the fields of the untyped Python objects
  hold: \<open>None\<close>, booleans, integers, floats, strings, lists and dictionaries with string
  keys. A float is represented by its \<open>repr\<close>, the shortest decimal literal that reads
  back as the same float, so two finite floats are equal exactly when their
  representations are. A dictionary is an association list in insertion order.
\<close>

datatype json =
  JNull
| JBool bool
| JInt int
| JFloat string
| JStr string
| JList "json list"
| JDict "(string \<times> json) list"

text \<open>
  The exception classes the code meets. \<open>JSONDecodeError\<close> is a subclass of
  \<open>ValueError\<close>; \<open>OtherError\<close> stands for any class that is none of the others.
\<close>

datatype pyexc = JSONDecodeError | ValueError | KeyError | TypeError | AttributeError | OtherError

section \<open>Identity manager (src/src/identity\_manager.py)\<close>

datatype file_state = Missing | Unreadable string | Contents string

record IdentitySettings =
  identity_file :: "string option"
  auto_generate :: bool
  hash_algorithm :: string
  include_system_info :: bool
  include_file_hash :: bool

text \<open>\<open>creation_time\<close> is a datetime; it is represented by its \<open>isoformat()\<close>.\<close>

record IdentityInfo =
  info_identity_hash :: string
  creation_time :: string
  system_info :: "(string \<times> json) list"
  file_hashes :: "(string \<times> string) list"
  custom_data :: "(string \<times> json) list"
  version :: string

record IdentityManager =
  im_settings :: IdentitySettings
  identity_info :: "IdentityInfo option"
  cached_hash :: "string option"
  last_hash_time :: rat
  hash_generations :: int
  file_reads :: int
  system_info_queries :: int

text \<open>
  The outside world of the identity manager: the file system (a path is missing, exists
  but raises on \<open>open\<close> or \<open>read\<close> with the given message, or has contents); the library
  functions \<open>hashlib.new\<close> (\<open>None\<close> for an unsupported algorithm name),
  \<open>hashlib.sha256\<close>, \<open>sha512\<close> and \<open>md5\<close> (each the hex digest of its input) and
  \<open>json.dumps(_, sort_keys=True)\<close>; the decoding of an exported identity document
  (\<open>None\<close> when \<open>json.load\<close> or a field access raises); what \<open>platform\<close> reports; and the
  clocks.
\<close>

record id_env =
  files :: "string \<Rightarrow> file_state"
  hashlib_new :: "string \<Rightarrow> (string \<Rightarrow> string) option"
  sha256 :: "string \<Rightarrow> string"
  sha512 :: "string \<Rightarrow> string"
  md5 :: "string \<Rightarrow> string"
  dumps_sorted :: "json \<Rightarrow> string"
  load_identity :: "string \<Rightarrow> IdentityInfo option"
  platform_info :: "(string \<times> json) list"
  utcnow :: string
  id_clock :: rat

definition path_exists :: "id_env \<Rightarrow> string \<Rightarrow> bool" where
  "path_exists env path \<longleftrightarrow> files env path \<noteq> Missing"

definition basename :: "string \<Rightarrow> string" where
  "basename path = rev (takeWhile (\<lambda>c. c \<noteq> CHR ''/'') (rev path))"

definition join_with :: "string \<Rightarrow> string list \<Rightarrow> string" where
  "join_with sep xs = (case xs of [] \<Rightarrow> [] | y # ys \<Rightarrow> y @ concat (map (\<lambda>z. sep @ z) ys))"

text \<open>
  \<open>_calculate_file_hash\<close>: every exception is caught and turned into a string that
  starts with \<open>error:\<close>. The chunked reads feed one hash object, whose digest is the digest
  of the whole contents.
\<close>

definition calculate_file_hash :: "id_env \<Rightarrow> IdentitySettings \<Rightarrow> string \<Rightarrow> string" where
  "calculate_file_hash env st file_path =
     (case hashlib_new env (hash_algorithm st) of
        None \<Rightarrow> ''error:unsupported hash type '' @ hash_algorithm st
      | Some hash_obj \<Rightarrow>
          (case files env file_path of
             Contents bytes \<Rightarrow> hash_obj bytes
           | Unreadable msg \<Rightarrow> ''error:'' @ msg
           | Missing \<Rightarrow> ''error:[Errno 2] No such file or directory: '' @ file_path))"

definition generate_identity_hash :: "id_env \<Rightarrow> IdentityManager \<Rightarrow> string" where
  "generate_identity_hash env im =
     (case identity_info im of
        None \<Rightarrow> []
      | Some info \<Rightarrow>
          let components =
                (if system_info info \<noteq> []
                 then [''system:'' @ dumps_sorted env (JDict (system_info info))] else []) @
                (if file_hashes info \<noteq> []
                 then [''files:'' @ dumps_sorted env
                         (JDict (map (\<lambda>(k, v). (k, JStr v)) (file_hashes info)))] else []) @
                (if custom_data info \<noteq> []
                 then [''custom:'' @ dumps_sorted env (JDict (custom_data info))] else []) @
                [''created:'' @ creation_time info];
              combined = join_with ''|'' components
          in if hash_algorithm (im_settings im) = ''sha256'' then sha256 env combined
             else if hash_algorithm (im_settings im) = ''sha512'' then sha512 env combined
             else if hash_algorithm (im_settings im) = ''md5'' then md5 env combined
             else sha256 env combined)"

definition import_identity :: "id_env \<Rightarrow> string \<Rightarrow> IdentityManager \<Rightarrow> bool \<times> IdentityManager" where
  "import_identity env file_path im =
     (case files env file_path of
        Missing \<Rightarrow> (False, im)
      | Unreadable msg \<Rightarrow> (False, im)
      | Contents doc \<Rightarrow>
          (case load_identity env doc of
             None \<Rightarrow> (False, im)
           | Some info \<Rightarrow> (True, im\<lparr>identity_info := Some info, cached_hash := None\<rparr>)))"

text \<open>\<open>settings.identity_file and os.path.exists(settings.identity_file)\<close>.\<close>

definition identity_file_exists :: "id_env \<Rightarrow> IdentitySettings \<Rightarrow> bool" where
  "identity_file_exists env st =
     (case identity_file st of None \<Rightarrow> False | Some p \<Rightarrow> p \<noteq> [] \<and> path_exists env p)"

definition identity_file_path :: "IdentitySettings \<Rightarrow> string" where
  "identity_file_path st = (case identity_file st of None \<Rightarrow> [] | Some p \<Rightarrow> p)"

definition create_new_identity :: "id_env \<Rightarrow> IdentityManager \<Rightarrow> IdentityManager" where
  "create_new_identity env im =
     (let st = im_settings im;
          im0 = (if include_system_info st
                 then im\<lparr>system_info_queries := system_info_queries im + 1\<rparr> else im);
          sys = (if include_system_info st then platform_info env else []);
          fhs = (if include_file_hash st \<and> identity_file_exists env st
                 then [(''identity_file'', calculate_file_hash env st (identity_file_path st))]
                 else []);
          info = \<lparr>info_identity_hash = [], creation_time = utcnow env, system_info = sys,
                  file_hashes = fhs, custom_data = [], version = ''1.0''\<rparr>;
          im1 = im0\<lparr>identity_info := Some info\<rparr>
      in im1\<lparr>identity_info := Some (info\<lparr>info_identity_hash := generate_identity_hash env im1\<rparr>)\<rparr>)"

definition initialize_identity :: "id_env \<Rightarrow> IdentityManager \<Rightarrow> IdentityManager" where
  "initialize_identity env im =
     (let loaded = (if identity_file_exists env (im_settings im)
                    then import_identity env (identity_file_path (im_settings im)) im
                    else (False, im))
      in if fst loaded then snd loaded
         else if auto_generate (im_settings im) then create_new_identity env (snd loaded)
         else (snd loaded)\<lparr>identity_info := None\<rparr>)"

definition IdentityManager_init :: "IdentitySettings \<Rightarrow> id_env \<Rightarrow> IdentityManager" where
  "IdentityManager_init st env =
     initialize_identity env
       \<lparr>im_settings = st, identity_info = None, cached_hash = None, last_hash_time = 0,
        hash_generations = 0, file_reads = 0, system_info_queries = 0\<rparr>"

definition identity_changed :: "id_env \<Rightarrow> IdentityManager \<Rightarrow> bool" where
  "identity_changed env im =
     (case identity_info im of
        None \<Rightarrow> True
      | Some info \<Rightarrow>
          if identity_file_exists env (im_settings im)
          then Some (calculate_file_hash env (im_settings im)
                       (identity_file_path (im_settings im)))
                 \<noteq> map_of (file_hashes info) ''identity_file''
          else False)"

definition get_identity_hash :: "id_env \<Rightarrow> IdentityManager \<Rightarrow> string \<times> IdentityManager" where
  "get_identity_hash env im =
     (let current_time = id_clock env;
          fresh = (case cached_hash im of
                     None \<Rightarrow> None
                   | Some h \<Rightarrow>
                       if h \<noteq> [] \<and> current_time - last_hash_time im < 60
                          \<and> \<not> identity_changed env im
                       then Some h else None)
      in case fresh of
           Some h \<Rightarrow> (h, im)
         | None \<Rightarrow>
             let h = generate_identity_hash env im
             in (h, im\<lparr>cached_hash := Some h, last_hash_time := current_time,
                       hash_generations := hash_generations im + 1\<rparr>))"

definition update_custom_data :: "id_env \<Rightarrow> string \<Rightarrow> json \<Rightarrow> IdentityManager \<Rightarrow> IdentityManager" where
  "update_custom_data env key val im =
     (let im1 = (if identity_info im = None then initialize_identity env im else im)
      in case identity_info im1 of
           None \<Rightarrow> im1
         | Some info \<Rightarrow>
             im1\<lparr>identity_info := Some (info\<lparr>custom_data := AList.update key val (custom_data info)\<rparr>),
                 cached_hash := None\<rparr>)"

text \<open>\<open>alias or os.path.basename(file_path)\<close>.\<close>

definition identity_key :: "string option \<Rightarrow> string \<Rightarrow> string" where
  "identity_key alias file_path =
     (case alias of
        None \<Rightarrow> basename file_path
      | Some a \<Rightarrow> if a \<noteq> [] then a else basename file_path)"

text \<open>
  \<open>add_file_to_identity\<close>. Nothing inside its \<open>try\<close> raises in this model (the helpers
  catch their own exceptions), so its \<open>except\<close> branch, which returns false, is never taken.
\<close>

definition add_file_to_identity ::
  "id_env \<Rightarrow> string \<Rightarrow> string option \<Rightarrow> IdentityManager \<Rightarrow> bool \<times> IdentityManager" where
  "add_file_to_identity env file_path alias im =
     (if \<not> path_exists env file_path then (False, im)
      else
        let file_hash = calculate_file_hash env (im_settings im) file_path;
            key = identity_key alias file_path;
            im1 = (if identity_info im = None then initialize_identity env im else im)
        in case identity_info im1 of
             Some info \<Rightarrow>
               (True, im1\<lparr>identity_info :=
                            Some (info\<lparr>file_hashes := AList.update key file_hash (file_hashes info)\<rparr>),
                          cached_hash := None,
                          file_reads := file_reads im1 + 1\<rparr>)
           | None \<Rightarrow> (False, im1))"

definition remove_file_from_identity :: "string \<Rightarrow> IdentityManager \<Rightarrow> bool \<times> IdentityManager" where
  "remove_file_from_identity file_key im =
     (case identity_info im of
        None \<Rightarrow> (False, im)
      | Some info \<Rightarrow>
          if file_key \<in> fst ` set (file_hashes info)
          then (True, im\<lparr>identity_info := Some (info\<lparr>file_hashes := AList.delete file_key (file_hashes info)\<rparr>),
                         cached_hash := None\<rparr>)
          else (False, im))"

section \<open>JSON text (the \<open>json\<close> module of the Python library)\<close>

text \<open>
  \<open>json.dumps(_, separators=(",", ":"))\<close> and \<open>json.loads\<close>, for strings over the code
  points 0 to 255. The functions of the protocol core take the two as parameters, so
  what is proved of them holds for any behaviour of the library; the definitions here
  supply the library's behaviour on concrete texts and are shown to invert each other.

  The printer escapes as \<open>ensure_ascii=True\<close> does: the quote, the backslash and the
  control characters with a short escape by it, every other character outside the
  printable ASCII range by a four-digit hexadecimal escape. The parser is the strict one: it skips blanks between
  tokens, rejects control characters inside strings, leading zeros and text after the
  value, reads \<open>NaN\<close>, \<open>Infinity\<close> and \<open>-Infinity\<close>, and lets a later duplicate key
  overwrite the earlier value. A hexadecimal escape above 255 is outside the model and is
  rejected. The fuel of the recursive descent is the length of the text.
\<close>

definition dquote :: char where "dquote = CHR 0x22"
definition backslash :: char where "backslash = CHR 0x5C"

definition hex_digit :: "nat \<Rightarrow> char" where
  "hex_digit d = ''0123456789abcdef'' ! d"

definition escape_char :: "char \<Rightarrow> string" where
  "escape_char c =
     (if c = dquote then [backslash, dquote]
      else if c = backslash then [backslash, backslash]
      else if c = CHR 0x0A then [backslash, CHR ''n'']
      else if c = CHR 0x0D then [backslash, CHR ''r'']
      else if c = CHR 0x09 then [backslash, CHR ''t'']
      else if c = CHR 0x08 then [backslash, CHR ''b'']
      else if c = CHR 0x0C then [backslash, CHR ''f'']
      else if 0x20 \<le> (of_char c :: nat) \<and> (of_char c :: nat) \<le> 0x7E then [c]
      else [backslash, CHR ''u'', CHR ''0'', CHR ''0'',
            hex_digit (of_char c div 16), hex_digit (of_char c mod 16)])"

definition dumps_string :: "string \<Rightarrow> string" where
  "dumps_string s = dquote # concat (map escape_char s) @ [dquote]"

definition digit_char :: "nat \<Rightarrow> char" where
  "digit_char d = ''0123456789'' ! d"

fun nat_digits :: "nat \<Rightarrow> string" where
  "nat_digits n =
     (if n < 10 then [digit_char n] else nat_digits (n div 10) @ [digit_char (n mod 10)])"

declare nat_digits.simps [simp del]

definition dumps_int :: "int \<Rightarrow> string" where
  "dumps_int i = (if i < 0 then CHR ''-'' # nat_digits (nat (- i)) else nat_digits (nat i))"

primrec json_dumps :: "json \<Rightarrow> string" where
  "json_dumps JNull = ''null''"
| "json_dumps (JBool b) = (if b then ''true'' else ''false'')"
| "json_dumps (JInt i) = dumps_int i"
| "json_dumps (JFloat lit) = lit"
| "json_dumps (JStr s) = dumps_string s"
| "json_dumps (JList xs) = ''['' @ join_with '','' (map json_dumps xs) @ '']''"
| "json_dumps (JDict kv) =
     ''{'' @ join_with '','' (map (\<lambda>(k, v). dumps_string k @ '':'' @ v) (map (map_prod id json_dumps) kv)) @ ''}''"

definition is_ws :: "char \<Rightarrow> bool" where
  "is_ws c \<longleftrightarrow> c = CHR '' '' \<or> c = CHR 0x09 \<or> c = CHR 0x0A \<or> c = CHR 0x0D"

definition skip_ws :: "string \<Rightarrow> string" where
  "skip_ws s = dropWhile is_ws s"

definition is_digit :: "char \<Rightarrow> bool" where
  "is_digit c \<longleftrightarrow> (48::nat) \<le> of_char c \<and> (of_char c :: nat) \<le> 57"

definition digit_val :: "char \<Rightarrow> nat" where
  "digit_val c = of_char c - 48"

definition nat_of_digits :: "string \<Rightarrow> nat" where
  "nat_of_digits ds = foldl (\<lambda>acc c. 10 * acc + digit_val c) 0 ds"

definition hex_val :: "char \<Rightarrow> nat option" where
  "hex_val c =
     (let n = (of_char c :: nat)
      in if 48 \<le> n \<and> n \<le> 57 then Some (n - 48)
         else if 97 \<le> n \<and> n \<le> 102 then Some (n - 87)
         else if 65 \<le> n \<and> n \<le> 70 then Some (n - 55)
         else None)"

definition unescape :: "char \<Rightarrow> char option" where
  "unescape e =
     (if e = dquote then Some dquote
      else if e = backslash then Some backslash
      else if e = CHR ''/'' then Some CHR ''/''
      else if e = CHR ''b'' then Some (CHR 0x08)
      else if e = CHR ''f'' then Some (CHR 0x0C)
      else if e = CHR ''n'' then Some (CHR 0x0A)
      else if e = CHR ''r'' then Some (CHR 0x0D)
      else if e = CHR ''t'' then Some (CHR 0x09)
      else None)"

definition hex4 :: "char \<Rightarrow> char \<Rightarrow> char \<Rightarrow> char \<Rightarrow> nat option" where
  "hex4 a b c d =
     (case (hex_val a, hex_val b, hex_val c, hex_val d) of
        (Some x, Some y, Some z, Some w) \<Rightarrow> Some (((x * 16 + y) * 16 + z) * 16 + w)
      | _ \<Rightarrow> None)"

definition cons_result :: "'a \<Rightarrow> ('a list \<times> string) option \<Rightarrow> ('a list \<times> string) option" where
  "cons_result x r = (case r of None \<Rightarrow> None | Some (xs, rest) \<Rightarrow> Some (x # xs, rest))"

fun scan_string :: "string \<Rightarrow> (string \<times> string) option" where
  "scan_string [] = None"
| "scan_string (c # cs) =
     (if c = dquote then Some ([], cs)
      else if c = backslash then
        (case cs of
           [] \<Rightarrow> None
         | e # r \<Rightarrow>
             if e = CHR ''u'' then
               (case r of
                  a # b # c' # d # r' \<Rightarrow>
                    (case hex4 a b c' d of
                       None \<Rightarrow> None
                     | Some n \<Rightarrow> if n < 256 then cons_result (char_of n) (scan_string r') else None)
                | _ \<Rightarrow> None)
             else
               (case unescape e of
                  None \<Rightarrow> None
                | Some ch \<Rightarrow> cons_result ch (scan_string r)))
      else if (of_char c :: nat) < 0x20 then None
      else cons_result c (scan_string cs))"

text \<open>
  A number is a sign, digits without a leading zero, and optionally a fraction and an
  exponent; with neither it is an integer, else a float. Each part is the longest that
  matches.
\<close>

definition scan_sign :: "string \<Rightarrow> string" where
  "scan_sign s = (if s \<noteq> [] \<and> hd s = CHR ''-'' then ''-'' else [])"

definition scan_frac :: "string \<Rightarrow> string" where
  "scan_frac s =
     (if s \<noteq> [] \<and> hd s = CHR ''.'' \<and> takeWhile is_digit (tl s) \<noteq> []
      then CHR ''.'' # takeWhile is_digit (tl s) else [])"

definition scan_exp :: "string \<Rightarrow> string" where
  "scan_exp s =
     (if s \<noteq> [] \<and> (hd s = CHR ''e'' \<or> hd s = CHR ''E'') then
        (if tl s \<noteq> [] \<and> (hd (tl s) = CHR ''+'' \<or> hd (tl s) = CHR ''-'') then
           (if takeWhile is_digit (tl (tl s)) \<noteq> []
            then hd s # hd (tl s) # takeWhile is_digit (tl (tl s)) else [])
         else
           (if takeWhile is_digit (tl s) \<noteq> [] then hd s # takeWhile is_digit (tl s) else []))
      else [])"

definition scan_number :: "string \<Rightarrow> (json \<times> string) option" where
  "scan_number s =
     (let sgn = scan_sign s;
          s1 = drop (length sgn) s;
          ip = takeWhile is_digit s1;
          s2 = dropWhile is_digit s1;
          frac = scan_frac s2;
          s3 = drop (length frac) s2;
          expo = scan_exp s3;
          s4 = drop (length expo) s3
      in if ip = [] \<or> (length ip > 1 \<and> hd ip = CHR ''0'') then None
         else if frac = [] \<and> expo = []
           then Some (JInt (if sgn = [] then int (nat_of_digits ip)
                            else - int (nat_of_digits ip)), s4)
         else Some (JFloat (sgn @ ip @ frac @ expo), s4))"

definition dict_of_pairs :: "(string \<times> json) list \<Rightarrow> (string \<times> json) list" where
  "dict_of_pairs pairs = foldl (\<lambda>d (k, v). AList.update k v d) [] pairs"

definition starts_with :: "string \<Rightarrow> string \<Rightarrow> bool" where
  "starts_with p s \<longleftrightarrow> take (length p) s = p"

fun parse_value :: "nat \<Rightarrow> string \<Rightarrow> (json \<times> string) option"
  and parse_elements :: "nat \<Rightarrow> string \<Rightarrow> (json list \<times> string) option"
  and parse_members :: "nat \<Rightarrow> string \<Rightarrow> ((string \<times> json) list \<times> string) option"
where
  "parse_value 0 s = None"
| "parse_value (Suc n) s =
     (if s = [] then None
      else if hd s = dquote then
        (case scan_string (tl s) of None \<Rightarrow> None | Some (str, r) \<Rightarrow> Some (JStr str, r))
      else if hd s = CHR ''['' then
        (if starts_with '']'' (skip_ws (tl s)) then Some (JList [], tl (skip_ws (tl s)))
         else (case parse_elements n (skip_ws (tl s)) of
                 None \<Rightarrow> None
               | Some (vs, r) \<Rightarrow> Some (JList vs, r)))
      else if hd s = CHR ''{'' then
        (if starts_with ''}'' (skip_ws (tl s)) then Some (JDict [], tl (skip_ws (tl s)))
         else (case parse_members n (skip_ws (tl s)) of
                 None \<Rightarrow> None
               | Some (kv, r) \<Rightarrow> Some (JDict (dict_of_pairs kv), r)))
      else if starts_with ''null'' s then Some (JNull, drop 4 s)
      else if starts_with ''true'' s then Some (JBool True, drop 4 s)
      else if starts_with ''false'' s then Some (JBool False, drop 5 s)
      else if starts_with ''NaN'' s then Some (JFloat ''NaN'', drop 3 s)
      else if starts_with ''Infinity'' s then Some (JFloat ''Infinity'', drop 8 s)
      else if starts_with ''-Infinity'' s then Some (JFloat ''-Infinity'', drop 9 s)
      else scan_number s)"
| "parse_elements 0 s = None"
| "parse_elements (Suc n) s =
     (case parse_value n s of
        None \<Rightarrow> None
      | Some (v, r) \<Rightarrow>
          if starts_with '']'' (skip_ws r) then Some ([v], tl (skip_ws r))
          else if starts_with '','' (skip_ws r)
            then cons_result v (parse_elements n (skip_ws (tl (skip_ws r))))
          else None)"
| "parse_members 0 s = None"
| "parse_members (Suc n) s =
     (if s = [] \<or> hd s \<noteq> dquote then None
      else
        (case scan_string (tl s) of
           None \<Rightarrow> None
         | Some (k, r) \<Rightarrow>
             if \<not> starts_with '':'' (skip_ws r) then None
             else
               (case parse_value n (skip_ws (tl (skip_ws r))) of
                  None \<Rightarrow> None
                | Some (v, r') \<Rightarrow>
                    if starts_with ''}'' (skip_ws r') then Some ([(k, v)], tl (skip_ws r'))
                    else if starts_with '','' (skip_ws r')
                      then cons_result (k, v) (parse_members n (skip_ws (tl (skip_ws r'))))
                    else None)))"

definition json_loads :: "string \<Rightarrow> pyexc + json" where
  "json_loads s =
     (case parse_value (Suc (length s)) (skip_ws s) of
        None \<Rightarrow> Inl JSONDecodeError
      | Some (v, r) \<Rightarrow> if skip_ws r = [] then Inr v else Inl JSONDecodeError)"


text \<open>
  The values for which printing and parsing are inverse: the keys of a dictionary are
  distinct, as those of a Python dictionary are; an integer has at most 4300 decimal
  digits, the most that Python 3.11 and later convert between \<open>int\<close> and \<open>str\<close>; and a
  float is written as the literal of a finite or infinite float. (\<open>NaN\<close> is left out: it
  is printed and read, but is not equal to itself.) After a printed value comes the end
  of the text, a comma or a closing bracket.
\<close>

definition float_literal :: "string \<Rightarrow> bool" where
  "float_literal lit \<longleftrightarrow>
     lit = ''Infinity'' \<or> lit = ''-Infinity'' \<or> scan_number lit = Some (JFloat lit, [])"

primrec wf_json :: "json \<Rightarrow> bool" where
  "wf_json JNull = True"
| "wf_json (JBool b) = True"
| "wf_json (JInt i) = (length (nat_digits (nat \<bar>i\<bar>)) \<le> 4300)"
| "wf_json (JFloat lit) = float_literal lit"
| "wf_json (JStr s) = True"
| "wf_json (JList xs) = list_all id (map wf_json xs)"
| "wf_json (JDict kv) = (distinct (map fst kv) \<and> list_all snd (map (map_prod id wf_json) kv))"

definition delimited :: "string \<Rightarrow> bool" where
  "delimited rest =
     (case rest of [] \<Rightarrow> True | c # cs \<Rightarrow> c = CHR '','' \<or> c = CHR '']'' \<or> c = CHR ''}'')"

definition value_start :: "char \<Rightarrow> bool" where
  "value_start c \<longleftrightarrow>
     c = dquote \<or> c = CHR ''['' \<or> c = CHR ''{'' \<or> c = CHR ''n'' \<or> c = CHR ''t'' \<or>
     c = CHR ''f'' \<or> c = CHR ''N'' \<or> c = CHR ''I'' \<or> c = CHR ''-'' \<or> is_digit c"

section \<open>Protocol core (src/src/core.py)\<close>

text \<open>
  \<open>QRData\<close> is a dataclass without validation: each field holds whatever value it was
  given, so the fields are Python values. \<open>asdict\<close> lists the fields in their order of
  declaration.
\<close>

record QRData =
  timestamp :: json
  identity_hash :: json
  blockchain_hashes :: json
  time_server_verification :: json
  user_data :: json
  sequence_number :: json

definition asdict :: "QRData \<Rightarrow> json" where
  "asdict p =
     JDict [(''timestamp'', timestamp p), (''identity_hash'', identity_hash p),
            (''blockchain_hashes'', blockchain_hashes p),
            (''time_server_verification'', time_server_verification p),
            (''user_data'', user_data p), (''sequence_number'', sequence_number p)]"

definition to_json :: "(json \<Rightarrow> string) \<Rightarrow> QRData \<Rightarrow> string" where
  "to_json dumps p = dumps (asdict p)"

definition field_names :: "string list" where
  "field_names = [''timestamp'', ''identity_hash'', ''blockchain_hashes'',
                  ''time_server_verification'', ''user_data'', ''sequence_number'']"

text \<open>
  \<open>cls(**data)\<close>: a \<open>TypeError\<close> when \<open>data\<close> is not a mapping, has a key that is no
  field, or lacks one of the four fields without default; \<open>user_data\<close> defaults to
  \<open>None\<close> and \<open>sequence_number\<close> to 0.
\<close>

definition QRData_of_kwargs :: "json \<Rightarrow> pyexc + QRData" where
  "QRData_of_kwargs data =
     (case data of
        JDict kv \<Rightarrow>
          if list_ex (\<lambda>(k, v). k \<notin> set field_names) kv then Inl TypeError
          else
            (case (map_of kv ''timestamp'', map_of kv ''identity_hash'',
                   map_of kv ''blockchain_hashes'', map_of kv ''time_server_verification'') of
               (Some t, Some i, Some b, Some v) \<Rightarrow>
                 Inr \<lparr>timestamp = t, identity_hash = i, blockchain_hashes = b,
                      time_server_verification = v,
                      user_data = (case map_of kv ''user_data'' of None \<Rightarrow> JNull | Some u \<Rightarrow> u),
                      sequence_number =
                        (case map_of kv ''sequence_number'' of None \<Rightarrow> JInt 0 | Some n \<Rightarrow> n)\<rparr>
             | _ \<Rightarrow> Inl TypeError)
      | _ \<Rightarrow> Inl TypeError)"

definition from_json :: "(string \<Rightarrow> pyexc + json) \<Rightarrow> string \<Rightarrow> pyexc + QRData" where
  "from_json loads json_str =
     (case loads json_str of Inl e \<Rightarrow> Inl e | Inr data \<Rightarrow> QRData_of_kwargs data)"

text \<open>
  The protocol object: the counter, the last packet and the configured drift tolerance.
  Its components are seen through what their calls return.
\<close>

record QRLiveProtocol =
  qrlp_sequence_number :: int
  current_qr_data :: "QRData option"
  max_time_drift :: rat

definition QRLiveProtocol_init :: "rat \<Rightarrow> QRLiveProtocol" where
  "QRLiveProtocol_init drift =
     \<lparr>qrlp_sequence_number = 0, current_qr_data = None, max_time_drift = drift\<rparr>"

text \<open>
  What one \<open>generate_single_qr\<close> call reads: the time provider's current time in ISO
  format, the identity hash, the block hashes, the time-server verification, the
  serialiser, and the QR encoder, which can raise (for data beyond the capacity of a code).
\<close>

record gen_env =
  current_time_iso :: string
  current_identity :: string
  current_hashes :: "(string \<times> string) list"
  time_verification :: json
  dumps :: "json \<Rightarrow> string"
  generate_qr_image :: "string \<Rightarrow> pyexc + string"

definition generate_single_qr ::
  "gen_env \<Rightarrow> json \<Rightarrow> QRLiveProtocol \<Rightarrow> (pyexc + QRData \<times> string) \<times> QRLiveProtocol" where
  "generate_single_qr env user_data_arg q =
     (let qr_data = \<lparr>timestamp = JStr (current_time_iso env),
                      identity_hash = JStr (current_identity env),
                      blockchain_hashes = JDict (map (\<lambda>(ch, h). (ch, JStr h)) (current_hashes env)),
                      time_server_verification = time_verification env,
                      user_data = user_data_arg,
                      sequence_number = JInt (qrlp_sequence_number q)\<rparr>;
          qr_json = to_json (dumps env) qr_data
      in case generate_qr_image env qr_json of
           Inl e \<Rightarrow> (Inl e, q)
         | Inr qr_image \<Rightarrow>
             (Inr (qr_data, qr_image),
              q\<lparr>qrlp_sequence_number := qrlp_sequence_number q + 1,
                current_qr_data := Some qr_data\<rparr>))"

text \<open>
  Successive calls on one protocol object; the packets are those of the calls that
  returned, in order.
\<close>

fun generate_many :: "(gen_env \<times> json) list \<Rightarrow> QRLiveProtocol \<Rightarrow> QRData list \<times> QRLiveProtocol" where
  "generate_many [] q = ([], q)"
| "generate_many (call # calls) q =
     (case generate_single_qr (fst call) (snd call) q of
        (Inl e, q') \<Rightarrow> generate_many calls q'
      | (Inr (p, img), q') \<Rightarrow>
          (case generate_many calls q' of (ps, q'') \<Rightarrow> (p # ps, q'')))"

text \<open>
  A datetime is naive or aware; either way it is a number of microseconds (for an aware
  one, since the epoch in UTC).
\<close>

datatype pydatetime = Naive int | Aware int

text \<open>
  What one \<open>verify_qr_data\<close> call reads: the parser, the identity hash, the block
  hashes, \<open>datetime.fromisoformat\<close> (\<open>None\<close> for its \<open>ValueError\<close>) and
  \<open>datetime.now(timezone.utc)\<close>.
\<close>

record verify_env =
  loads :: "string \<Rightarrow> pyexc + json"
  expected_identity :: string
  verifier_hashes :: "(string \<times> string) list"
  fromisoformat :: "string \<Rightarrow> pydatetime option"
  utc_now :: int

record VerifyResult =
  valid_json :: bool
  verify_error :: "pyexc option"
  identity_verified :: bool
  time_verified :: bool
  blockchain_verified :: bool

text \<open>Python's truth value of a value; a float is false when it is a zero.\<close>

definition float_is_zero :: "string \<Rightarrow> bool" where
  "float_is_zero lit =
     list_all (\<lambda>c. c = CHR ''0'' \<or> c = CHR ''.'' \<or> c = CHR ''-'')
       (takeWhile (\<lambda>c. c \<noteq> CHR ''e'' \<and> c \<noteq> CHR ''E'') lit)"

fun truthy :: "json \<Rightarrow> bool" where
  "truthy JNull = False"
| "truthy (JBool b) = b"
| "truthy (JInt i) = (i \<noteq> 0)"
| "truthy (JFloat lit) = (\<not> float_is_zero lit)"
| "truthy (JStr s) = (s \<noteq> [])"
| "truthy (JList xs) = (xs \<noteq> [])"
| "truthy (JDict kv) = (kv \<noteq> [])"

text \<open>
  \<open>current_hashes.get(chain) == hash_val\<close>: \<open>get\<close> yields \<open>None\<close> for a chain that is not
  cached, and \<open>None\<close> equals only \<open>None\<close>.
\<close>

definition hash_matches :: "(string \<times> string) list \<Rightarrow> string \<Rightarrow> json \<Rightarrow> bool" where
  "hash_matches hashes ch hash_val =
     (case map_of hashes ch of None \<Rightarrow> hash_val = JNull | Some h \<Rightarrow> hash_val = JStr h)"

text \<open>
  The \<open>except (json.JSONDecodeError, ValueError, KeyError)\<close> clause: these three become
  a result, any other exception leaves the function.
\<close>

definition rejected :: "pyexc \<Rightarrow> pyexc + VerifyResult" where
  "rejected e =
     (if e = JSONDecodeError \<or> e = ValueError \<or> e = KeyError
      then Inr \<lparr>valid_json = False, verify_error = Some e, identity_verified = False,
                time_verified = False, blockchain_verified = False\<rparr>
      else Inl e)"

definition verify_qr_data :: "verify_env \<Rightarrow> QRLiveProtocol \<Rightarrow> string \<Rightarrow> pyexc + VerifyResult" where
  "verify_qr_data env q qr_json =
     (case from_json (loads env) qr_json of
        Inl e \<Rightarrow> rejected e
      | Inr qr_data \<Rightarrow>
          let id_ok = (identity_hash qr_data = JStr (expected_identity env))
          in case timestamp qr_data of
               JStr ts \<Rightarrow>
                 (case fromisoformat env ts of
                    None \<Rightarrow> rejected ValueError
                  | Some (Naive t) \<Rightarrow> rejected TypeError
                  | Some (Aware qr_time) \<Rightarrow>
                      let time_diff = \<bar>of_int (utc_now env - qr_time) / 1000000\<bar>;
                          time_ok = (time_diff \<le> max_time_drift q)
                      in if truthy (blockchain_hashes qr_data) then
                           (case blockchain_hashes qr_data of
                              JDict items \<Rightarrow>
                                Inr \<lparr>valid_json = True, verify_error = None,
                                     identity_verified = id_ok, time_verified = time_ok,
                                     blockchain_verified =
                                       list_ex (\<lambda>(ch, hash_val).
                                         hash_matches (verifier_hashes env) ch hash_val) items\<rparr>
                            | _ \<Rightarrow> rejected AttributeError)
                         else Inr \<lparr>valid_json = True, verify_error = None,
                                   identity_verified = id_ok, time_verified = time_ok,
                                   blockchain_verified = False\<rparr>)
             | _ \<Rightarrow> rejected TypeError)"

section \<open>Concrete situations used to instantiate the theorems\<close>

text \<open>
  Two configured NTP servers, of which one times out and one answers with offset 0.05;
  both HTTP time APIs are down.
\<close>

definition demo_time_settings :: TimeSettings where
  "demo_time_settings =
     \<lparr>update_interval = 1, time_servers = [''pool.ntp.org'', ''time.google.com'']\<rparr>"

definition demo_time_env :: time_env where
  "demo_time_env =
     \<lparr>ntp_request = (\<lambda>srv. if srv = ''time.google.com''
                            then Inr \<lparr>tx_time = 1700000000, ntp_offset = 1 / 20,
                                      ntp_delay = 1 / 100, ntp_stratum = 1\<rparr>
                            else Inl ''timed out''),
      http_datetime = (\<lambda>url. Inl ''connection refused''),
      clock = 1700000000,
      lock_acquired = True\<rparr>"

text \<open>
  A verifier that has fetched nothing yet; a network on which every endpoint fails, with
  the update lock free and with the update lock held by another thread; and a network on
  which only mempool.space answers.
\<close>

definition fresh_verifier :: BlockchainVerifier where
  "fresh_verifier =
     \<lparr>bv_settings = \<lparr>enabled_chains = [''bitcoin'', ''ethereum''], cache_duration = 300\<rparr>,
      cached_blocks = [], last_update = [],
      total_requests = 0, successful_requests = 0, failed_requests = 0, cache_hits = 0\<rparr>"

definition unreachable_env :: chain_env where
  "unreachable_env = \<lparr>endpoint_block = (\<lambda>url. None), chain_clock = 1700000000,
                       update_lock_acquired = (\<lambda>ch. True)\<rparr>"

definition busy_env :: chain_env where
  "busy_env = \<lparr>endpoint_block = (\<lambda>url. None), chain_clock = 1700000000,
                update_lock_acquired = (\<lambda>ch. False)\<rparr>"

definition mempool_env :: chain_env where
  "mempool_env =
     \<lparr>endpoint_block = (\<lambda>url. if url = ''https://mempool.space/api''
                               then Some (800000, ''00000000000000000002a7c4'', 1690000000)
                               else None),
      chain_clock = 1700000000,
      update_lock_acquired = (\<lambda>ch. True)\<rparr>"

text \<open>
  An identity manager with default settings apart from the system information, on a
  file system with one readable file and one that exists but cannot be opened. The
  digests are written symbolically, as the name of the algorithm around its input, and
  the compact JSON printer stands in for \<open>json.dumps(_, sort_keys=True)\<close>.
\<close>

definition demo_identity_settings :: IdentitySettings where
  "demo_identity_settings =
     \<lparr>identity_file = None, auto_generate = True, hash_algorithm = ''sha256'',
      include_system_info = False, include_file_hash = True\<rparr>"

definition demo_id_env :: "string \<Rightarrow> rat \<Rightarrow> id_env" where
  "demo_id_env notes t =
     \<lparr>files = (\<lambda>p. if p = ''/data/notes.txt'' then Contents notes
                    else if p = ''/data/locked.bin''
                      then Unreadable ''[Errno 13] Permission denied''
                    else Missing),
      hashlib_new = (\<lambda>alg. if alg = ''sha256'' then Some (\<lambda>s. ''sha256('' @ s @ '')'')
                            else None),
      sha256 = (\<lambda>s. ''sha256('' @ s @ '')''),
      sha512 = (\<lambda>s. ''sha512('' @ s @ '')''),
      md5 = (\<lambda>s. ''md5('' @ s @ '')''),
      dumps_sorted = json_dumps,
      load_identity = (\<lambda>doc. None),
      platform_info = [],
      utcnow = ''2024-01-01T00:00:00'',
      id_clock = t\<rparr>"

text \<open>The manager after construction and \<open>add_file_to_identity("/data/notes.txt")\<close>.\<close>

definition tracking_manager :: IdentityManager where
  "tracking_manager =
     snd (add_file_to_identity (demo_id_env ''first draft'' 1000) ''/data/notes.txt'' None
            (IdentityManager_init demo_identity_settings (demo_id_env ''first draft'' 1000)))"

text \<open>
  The cached hash, when there is one, is the hash of the current identity information.
  Every operation that changes the identity information clears the cache.
\<close>

definition cache_coherent :: "id_env \<Rightarrow> IdentityManager \<Rightarrow> bool" where
  "cache_coherent env im =
     (case cached_hash im of None \<Rightarrow> True | Some h \<Rightarrow> h = generate_identity_hash env im)"

text \<open>
  A packet with the given timestamp and block hashes; \<open>datetime.fromisoformat\<close> on the
  three timestamp texts used below; a verifier whose identity hash is that of the packet,
  ten seconds after the packet's time; and a generator whose QR encoder returns an image
  or raises, as told.
\<close>

definition demo_packet :: "json \<Rightarrow> json \<Rightarrow> QRData" where
  "demo_packet ts hashes =
     \<lparr>timestamp = ts, identity_hash = JStr ''abc123'',
      blockchain_hashes = hashes, time_server_verification = JDict [],
      user_data = JNull, sequence_number = JInt 0\<rparr>"

definition demo_fromisoformat :: "string \<Rightarrow> pydatetime option" where
  "demo_fromisoformat s =
     (if s = ''2024-01-01T00:00:00+00:00'' then Some (Aware 1704067200000000)
      else if s = ''2024-01-01T00:00:00'' then Some (Naive 1704067200000000)
      else None)"

definition demo_verify_env :: verify_env where
  "demo_verify_env =
     \<lparr>loads = json_loads, expected_identity = ''abc123'',
      verifier_hashes = [(''bitcoin'', ''00000000000000000002a7c4'')],
      fromisoformat = demo_fromisoformat, utc_now = 1704067210000000\<rparr>"

definition demo_gen_env :: "string \<Rightarrow> bool \<Rightarrow> gen_env" where
  "demo_gen_env iso_text encoder_ok =
     \<lparr>current_time_iso = iso_text, current_identity = ''abc123'',
      current_hashes = [(''bitcoin'', ''00000000000000000002a7c4'')],
      time_verification = JDict [], dumps = json_dumps,
      generate_qr_image = (\<lambda>data. if encoder_ok then Inr ''PNG'' else Inl OtherError)\<rparr>"

definition demo_calls :: "(gen_env \<times> json) list" where
  "demo_calls =
     [(demo_gen_env ''2024-01-01T00:00:00+00:00'' True, JNull),
      (demo_gen_env ''2024-01-01T00:00:05+00:00'' False, JNull),
      (demo_gen_env ''2024-01-01T00:00:10+00:00'' True, JNull)]"

section \<open>Printing and parsing JSON text\<close>

lemma hex_val_hex_digit: "d < 16 \<Longrightarrow> hex_val (hex_digit d) = Some d"
proof -
  assume "d < 16"
  then have "d \<in> set [0..<16]" by simp
  then show ?thesis
    unfolding upt_rec[of 0] 
    by (simp add: upt_rec hex_digit_def hex_val_def) (auto simp: hex_digit_def hex_val_def)
qed

lemma hex4_of_char:
  "hex4 (CHR ''0'') (CHR ''0'') (hex_digit (of_char c div 16)) (hex_digit (of_char c mod 16))
     = Some (of_char c)"
proof -
  have "(of_char c :: nat) < 256" by (rule nat_of_char_less_256) 
  then have "(of_char c :: nat) div 16 < 16" by presburger
  then show ?thesis
    by (simp add: hex4_def hex_val_hex_digit) (simp add: hex_val_def)
qed

lemma scan_string_escape:
  "scan_string (escape_char c @ s) = cons_result c (scan_string s)"
proof -
  have lt: "(of_char c :: nat) < 256" by (rule nat_of_char_less_256)
  show ?thesis
    using hex4_of_char[of c] lt
    by (auto simp: escape_char_def unescape_def dquote_def backslash_def)
qed

lemma scan_string_dumps:
  "scan_string (concat (map escape_char s) @ dquote # rest) = Some (s, rest)"
  by (induction s) (simp_all add: scan_string_escape cons_result_def)


lemma delimited_not_digit: "delimited rest \<Longrightarrow> rest \<noteq> [] \<Longrightarrow> \<not> is_digit (hd rest)"
  by (auto simp: delimited_def is_digit_def split: list.splits)

lemma takeWhile_digit_delimited:
  "delimited rest \<Longrightarrow> takeWhile is_digit (xs @ rest) = takeWhile is_digit xs"
  by (induction xs) (auto simp: delimited_def is_digit_def split: list.splits)

lemma dropWhile_digit_delimited:
  "delimited rest \<Longrightarrow> dropWhile is_digit (xs @ rest) = dropWhile is_digit xs @ rest"
  by (induction xs) (auto simp: delimited_def is_digit_def split: list.splits)

lemma scan_sign_delimited: "delimited rest \<Longrightarrow> scan_sign (s @ rest) = scan_sign s"
  by (cases s) (auto simp: scan_sign_def delimited_def split: list.splits)

lemma scan_sign_length: "length (scan_sign s) \<le> length s"
  by (cases s) (auto simp: scan_sign_def)

lemma scan_frac_delimited: "delimited rest \<Longrightarrow> scan_frac (s @ rest) = scan_frac s"
  by (cases s) (auto simp: scan_frac_def delimited_def takeWhile_digit_delimited split: list.splits)

lemma length_takeWhile_tl: "s \<noteq> [] \<Longrightarrow> Suc (length (takeWhile P (tl s))) \<le> length s"
  by (cases s) (simp_all add: length_takeWhile_le)

lemma scan_frac_length: "length (scan_frac s) \<le> length s"
  by (simp add: scan_frac_def length_takeWhile_tl)

lemma scan_exp_delimited: "delimited rest \<Longrightarrow> scan_exp (s @ rest) = scan_exp s"
proof (cases s)
  case Nil
  assume "delimited rest"
  with Nil show ?thesis by (auto simp: scan_exp_def delimited_def split: list.splits)
next
  case (Cons c cs)
  assume d: "delimited rest"
  show ?thesis
  proof (cases cs)
    case Nil
    with Cons d show ?thesis
      using takeWhile_digit_delimited[OF d, of "[]"]
      by (auto simp: scan_exp_def delimited_def split: list.splits)
  next
    case (Cons c' cs')
    with \<open>s = c # cs\<close> d show ?thesis
      using takeWhile_digit_delimited[OF d, of "c' # cs'"] takeWhile_digit_delimited[OF d, of "cs'"]
      by (simp add: scan_exp_def)
  qed
qed

lemma scan_exp_length: "length (scan_exp s) \<le> length s"
proof (cases s)
  case Nil
  then show ?thesis by (simp add: scan_exp_def)
next
  case (Cons c cs)
  then show ?thesis
    using length_takeWhile_le[of is_digit cs] length_takeWhile_le[of is_digit "tl cs"]
    by (cases cs) (auto simp: scan_exp_def)
qed

lemma scan_number_delimited:
  assumes "scan_number s = Some (v, r)" and "delimited rest"
  shows "scan_number (s @ rest) = Some (v, r @ rest)"
proof -
  note d = assms(2)
  have 1: "drop (length (scan_sign s)) (s @ rest) = drop (length (scan_sign s)) s @ rest"
    using scan_sign_length[of s] by simp
  have 2: "drop (length (scan_frac t)) (t @ rest) = drop (length (scan_frac t)) t @ rest" for t
    using scan_frac_length[of t] by simp
  have 3: "drop (length (scan_exp t)) (t @ rest) = drop (length (scan_exp t)) t @ rest" for t
    using scan_exp_length[of t] by simp
  show ?thesis
    using assms(1)
    unfolding scan_number_def Let_def scan_sign_delimited[OF d] 1
      takeWhile_digit_delimited[OF d] dropWhile_digit_delimited[OF d]
      scan_frac_delimited[OF d] 2 scan_exp_delimited[OF d] 3
    by (auto split: if_splits)
qed


lemma wf_json_JList: "wf_json (JList xs) \<longleftrightarrow> (\<forall>x\<in>set xs. wf_json x)"
  by (auto simp: list_all_iff)

lemma wf_json_JDict:
  "wf_json (JDict kv) \<longleftrightarrow> distinct (map fst kv) \<and> (\<forall>(k, v)\<in>set kv. wf_json v)"
  by (auto simp: list_all_iff)

lemma digit_char_props:
  "d < 10 \<Longrightarrow> is_digit (digit_char d) \<and> digit_val (digit_char d) = d \<and>
     (digit_char d = CHR ''0'' \<longleftrightarrow> d = 0) \<and> digit_char d \<noteq> CHR ''-''"
proof -
  assume "d < 10"
  then have "d \<in> set [0..<10]" by simp
  then show ?thesis
    by (simp add: upt_rec) (auto simp: digit_char_def is_digit_def digit_val_def)
qed

lemma nat_digits_all: "list_all is_digit (nat_digits n)"
  by (induction n rule: nat_digits.induct)
     (subst nat_digits.simps, simp add: digit_char_props)

lemma nat_digits_nonempty: "nat_digits n \<noteq> []"
  by (subst nat_digits.simps) simp

lemma nat_digits_hd: "n \<noteq> 0 \<Longrightarrow> hd (nat_digits n) \<noteq> CHR ''0''"
proof (induction n rule: nat_digits.induct)
  case (1 n)
  show ?case
  proof (cases "n < 10")
    case True
    with "1.prems" show ?thesis
      by (subst nat_digits.simps) (simp add: digit_char_props)
  next
    case False
    then have "n div 10 \<noteq> 0" by simp
    with "1.IH" False have "hd (nat_digits (n div 10)) \<noteq> CHR ''0''" by simp
    with False show ?thesis
      by (subst nat_digits.simps) (simp add: nat_digits_nonempty)
  qed
qed

lemma nat_of_digits_snoc: "nat_of_digits (ds @ [c]) = 10 * nat_of_digits ds + digit_val c"
  by (simp add: nat_of_digits_def)

lemma nat_of_digits_nat_digits: "nat_of_digits (nat_digits n) = n"
proof (induction n rule: nat_digits.induct)
  case (1 n)
  show ?case
  proof (cases "n < 10")
    case True
    then show ?thesis
      by (subst nat_digits.simps) (simp add: nat_of_digits_def digit_char_props)
  next
    case False
    with "1.IH" have "nat_of_digits (nat_digits (n div 10)) = n div 10" by simp
    with False show ?thesis
      by (subst nat_digits.simps) (simp add: nat_of_digits_snoc digit_char_props)
  qed
qed

lemma nat_digits_single: "length (nat_digits n) > 1 \<Longrightarrow> n \<noteq> 0"
  by (subst (asm) nat_digits.simps) (auto split: if_splits)

lemma takeWhile_all: "list_all P xs \<Longrightarrow> takeWhile P xs = xs \<and> dropWhile P xs = []"
  by (induction xs) auto

lemma nat_digits_hd_digit: "is_digit (hd (nat_digits n))"
  using nat_digits_all[of n] nat_digits_nonempty[of n] by (cases "nat_digits n") auto

lemma scan_number_nat_digits:
  "scan_number (nat_digits n) = Some (JInt (int n), [])"
proof -
  have s: "scan_sign (nat_digits n) = []"
    using nat_digits_hd_digit[of n] by (auto simp: scan_sign_def is_digit_def)
  have z: "\<not> (length (nat_digits n) > 1 \<and> hd (nat_digits n) = CHR ''0'')"
    using nat_digits_single nat_digits_hd by blast
  show ?thesis
    using z
    by (simp add: scan_number_def Let_def s takeWhile_all[OF nat_digits_all] nat_digits_nonempty
        scan_frac_def scan_exp_def nat_of_digits_nat_digits)
qed

lemma scan_number_neg_digits:
  "n \<noteq> 0 \<Longrightarrow> scan_number (CHR ''-'' # nat_digits n) = Some (JInt (- int n), [])"
proof -
  assume n: "n \<noteq> 0"
  have z: "\<not> (length (nat_digits n) > 1 \<and> hd (nat_digits n) = CHR ''0'')"
    using nat_digits_single nat_digits_hd by blast
  show ?thesis
    using z
    by (simp add: scan_number_def Let_def scan_sign_def takeWhile_all[OF nat_digits_all] nat_digits_nonempty
        scan_frac_def scan_exp_def nat_of_digits_nat_digits)
qed

lemma scan_number_dumps_int: "scan_number (dumps_int i) = Some (JInt i, [])"
proof (cases "i < 0")
  case True
  then have "nat (- i) \<noteq> 0" by simp
  from scan_number_neg_digits[OF this] True show ?thesis by (simp add: dumps_int_def)
next
  case False
  with scan_number_nat_digits[of "nat i"] show ?thesis by (simp add: dumps_int_def)
qed

section \<open>Properties of the time provider\<close>

lemma sync_with_servers_consistent:
  "stats_consistent tp \<Longrightarrow> stats_consistent (sync_with_servers env tp)"
  by (simp add: stats_consistent_def sync_with_servers_def Let_def)

lemma TimeProvider_init_consistent: "stats_consistent (TimeProvider_init st env)"
  unfolding TimeProvider_init_def
  by (rule sync_with_servers_consistent) (simp add: stats_consistent_def)

lemma tp_reachable_consistent: "tp_reachable tp \<Longrightarrow> stats_consistent tp"
proof (induction rule: tp_reachable.induct)
  case (tp_init st env)
  show ?case by (rule TimeProvider_init_consistent)
next
  case (tp_force_sync tp env)
  then show ?case by (simp add: force_sync_def Let_def sync_with_servers_consistent)
next
  case (tp_verification tp env)
  then show ?case
    by (simp add: get_time_server_verification_def Let_def sync_with_servers_consistent)
next
  case (tp_sync tp env)
  then show ?case by (simp add: sync_with_servers_consistent)
qed

lemma sync_with_servers_counts:
  "sync_with_servers env tp = tp' \<Longrightarrow>
     (if lock_acquired env
      then total_syncs tp' = total_syncs tp + 1 \<and>
           (successful_syncs tp' = successful_syncs tp + 1 \<and> failed_syncs tp' = failed_syncs tp
            \<or> successful_syncs tp' = successful_syncs tp \<and> failed_syncs tp' = failed_syncs tp + 1)
      else tp' = tp)"
  by (auto simp: sync_with_servers_def Let_def)

lemma get_current_time_spec_median:
  "get_current_time now tp = now + spec_median (map snd (time_offsets tp))"
  by (simp add: get_current_time_def spec_median_def Let_def even_iff_mod_2_eq_zero)

text \<open>
  Claim C3. In every state of the time provider, \<open>get_current_time\<close> returns the local
  clock plus the median of the stored offsets, where the median of no offsets is 0 and the
  median of an even number of offsets is the average of the two middle values of the
  sorted list. The offsets -2, -1, 0, 1, 2 give the consensus offset 0, and the offsets
  1, 2 give 1.5.
\<close>

theorem get_current_time_is_local_plus_median:
  "get_current_time now tp = now + spec_median (map snd (time_offsets tp))
   \<and> spec_median [] = 0
   \<and> spec_median [- 2, - 1, 0, 1, 2] = 0
   \<and> spec_median [1, 2] = 3 / 2
   \<and> get_current_time now (tp\<lparr>time_offsets := []\<rparr>) = now
   \<and> get_current_time now
        (tp\<lparr>time_offsets := [(''a'', - 2), (''b'', - 1), (''c'', 0), (''d'', 1), (''e'', 2)]\<rparr>)
       = now + 0
   \<and> get_current_time now (tp\<lparr>time_offsets := [(''a'', 1), (''b'', 2)]\<rparr>) = now + 3 / 2"
proof -
  have "spec_median [- 2, - 1, 0, 1, 2] = 0" and "spec_median [1, 2] = 3 / 2"
    and "spec_median [] = 0"
    by (simp_all add: spec_median_def)
  then show ?thesis
    by (simp add: get_current_time_spec_median)
qed

text \<open>
  Claim C10. The statistics of a time provider satisfy
  \<open>total_syncs = successful_syncs + failed_syncs\<close> after construction and after every
  operation. A synchronisation that acquires the lock adds one to \<open>total_syncs\<close> and to
  exactly one of \<open>successful_syncs\<close> and \<open>failed_syncs\<close>; one that finds the lock taken
  changes nothing. (The states are those between operations: inside a round the total is
  raised before the outcome is counted.)
\<close>

theorem sync_statistics_invariant:
  "tp_reachable tp \<Longrightarrow>
     stats_consistent tp \<and> stats_consistent (sync_with_servers env tp) \<and>
     (if lock_acquired env
      then total_syncs (sync_with_servers env tp) = total_syncs tp + 1 \<and>
           (successful_syncs (sync_with_servers env tp) = successful_syncs tp + 1 \<and>
            failed_syncs (sync_with_servers env tp) = failed_syncs tp
            \<or> successful_syncs (sync_with_servers env tp) = successful_syncs tp \<and>
              failed_syncs (sync_with_servers env tp) = failed_syncs tp + 1)
      else sync_with_servers env tp = tp)"
  using sync_with_servers_counts[OF refl, of env tp]
  by (simp add: tp_reachable_consistent sync_with_servers_consistent)

lemma demo_time_provider:
  "TimeProvider_init demo_time_settings demo_time_env =
     \<lparr>tp_settings = demo_time_settings, time_offsets = [(''time.google.com'', 1 / 20)],
      last_sync_time = 1700000000, total_syncs = 1, successful_syncs = 1, failed_syncs = 0\<rparr>"
  by (simp add: TimeProvider_init_def sync_with_servers_def sync_all_servers_def
      demo_time_settings_def demo_time_env_def get_ntp_time_def get_http_time_def
      http_apis_def Let_def)

theorem sync_statistics_invariant_witness:
  "tp_reachable (TimeProvider_init demo_time_settings demo_time_env) \<and>
   stats_consistent (TimeProvider_init demo_time_settings demo_time_env) \<and>
   total_syncs (sync_with_servers (demo_time_env\<lparr>lock_acquired := False\<rparr>)
      (TimeProvider_init demo_time_settings demo_time_env)) = 1 \<and>
   total_syncs (sync_with_servers demo_time_env
      (TimeProvider_init demo_time_settings demo_time_env)) = 2 \<and>
   successful_syncs (sync_with_servers demo_time_env
      (TimeProvider_init demo_time_settings demo_time_env)) = 2 \<and>
   failed_syncs (sync_with_servers demo_time_env
      (TimeProvider_init demo_time_settings demo_time_env)) = 0"
proof -
  have r: "tp_reachable (TimeProvider_init demo_time_settings demo_time_env)"
    by (rule tp_init)
  have l: "lock_acquired demo_time_env"
    by (simp add: demo_time_env_def)
  show ?thesis
    using sync_statistics_invariant[OF r, of demo_time_env]
      sync_statistics_invariant[OF r, of "demo_time_env\<lparr>lock_acquired := False\<rparr>"] r l
    apply (simp add: demo_time_provider)
    apply (simp add: sync_with_servers_def sync_all_servers_def demo_time_settings_def
        demo_time_env_def get_ntp_time_def get_http_time_def http_apis_def Let_def)
    done
qed

section \<open>Properties of the blockchain verifier\<close>

lemma update_chain_counts:
  "update_chain env ch bv = (ok, bv') \<Longrightarrow>
     successful_requests bv \<le> successful_requests bv' \<and> cache_hits bv \<le> cache_hits bv' \<and>
     (successful_requests bv' - successful_requests bv) + (cache_hits bv' - cache_hits bv)
       = (if ok then 1 else 0) \<and>
     (ok \<longleftrightarrow> \<not> update_lock_acquired env ch \<or> run_handler env ch \<noteq> None)"
  by (auto simp: update_chain_def Let_def split: if_splits option.splits)

lemma update_chains_loop_counts:
  "update_chains_loop env chs n bv = (n', bv') \<Longrightarrow>
     successful_requests bv \<le> successful_requests bv' \<and> cache_hits bv \<le> cache_hits bv' \<and>
     n' - n = (successful_requests bv' - successful_requests bv) + (cache_hits bv' - cache_hits bv) \<and>
     (n < n' \<longleftrightarrow>
        list_ex (\<lambda>ch. \<not> update_lock_acquired env ch \<or> run_handler env ch \<noteq> None) chs)"
proof (induction chs arbitrary: n bv)
  case Nil
  then show ?case by simp
next
  case (Cons ch chs)
  obtain ok bv1 where u: "update_chain env ch bv = (ok, bv1)"
    by (cases "update_chain env ch bv")
  from Cons.prems u
  have l: "update_chains_loop env chs (if ok then n + 1 else n) bv1 = (n', bv')"
    by simp
  note a = update_chain_counts[OF u]
  note b = Cons.IH[OF l]
  show ?case
  proof (cases ok)
    case True
    with a b show ?thesis by auto
  next
    case False
    with a b show ?thesis by auto
  qed
qed

text \<open>
  Claim C5, as amended. \<open>force_update\<close>, for one chain or for all enabled chains, returns
  true exactly when, for at least one chain it attempts, either the refresh completed (the
  handler fetched a block, which was stored and counted in \<open>successful_requests\<close>) or the
  attempt found the update lock held by another thread (counted in \<open>cache_hits\<close> and
  reported as success without fetching anything).
\<close>

theorem force_update_true_iff_refreshed_or_lock_held:
  "(fst (force_update env chain_arg bv) \<longleftrightarrow>
      list_ex (\<lambda>ch. \<not> update_lock_acquired env ch \<or> run_handler env ch \<noteq> None)
        (attempted_chains chain_arg bv)) \<and>
   (fst (force_update env chain_arg bv) \<longleftrightarrow>
      successful_requests bv < successful_requests (snd (force_update env chain_arg bv)) \<or>
      cache_hits bv < cache_hits (snd (force_update env chain_arg bv)))"
proof -
  have one: "(fst (update_chain env ch bv) \<longleftrightarrow>
      \<not> update_lock_acquired env ch \<or> run_handler env ch \<noteq> None) \<and>
      (fst (update_chain env ch bv) \<longleftrightarrow>
        successful_requests bv < successful_requests (snd (update_chain env ch bv)) \<or>
        cache_hits bv < cache_hits (snd (update_chain env ch bv)))" for ch
  proof -
    obtain ok bv1 where u: "update_chain env ch bv = (ok, bv1)"
      by (cases "update_chain env ch bv")
    from update_chain_counts[OF u] u show ?thesis by (cases ok) auto
  qed
  have all: "(fst (update_all_chains env bv) \<longleftrightarrow>
      list_ex (\<lambda>ch. \<not> update_lock_acquired env ch \<or> run_handler env ch \<noteq> None)
        (enabled_chains (bv_settings bv))) \<and>
      (fst (update_all_chains env bv) \<longleftrightarrow>
        successful_requests bv < successful_requests (snd (update_all_chains env bv)) \<or>
        cache_hits bv < cache_hits (snd (update_all_chains env bv)))"
  proof -
    obtain n' bv' where
      l: "update_chains_loop env (enabled_chains (bv_settings bv)) 0 bv = (n', bv')"
      by (cases "update_chains_loop env (enabled_chains (bv_settings bv)) 0 bv")
    from update_chains_loop_counts[OF l] l show ?thesis
      by (auto simp: update_all_chains_def)
  qed
  show ?thesis
  proof (cases chain_arg)
    case None
    then have e: "force_update env chain_arg bv = update_all_chains env bv"
      "attempted_chains chain_arg bv = enabled_chains (bv_settings bv)"
      by (simp_all add: force_update_def attempted_chains_def)
    show ?thesis unfolding e by (rule all)
  next
    case (Some ch)
    show ?thesis
    proof (cases "ch = []")
      case True
      with Some have e: "force_update env chain_arg bv = update_all_chains env bv"
        "attempted_chains chain_arg bv = enabled_chains (bv_settings bv)"
        by (simp_all add: force_update_def attempted_chains_def)
      show ?thesis unfolding e by (rule all)
    next
      case False
      with Some have e: "force_update env chain_arg bv = update_chain env ch bv"
        "attempted_chains chain_arg bv = [ch]"
        by (simp_all add: force_update_def attempted_chains_def)
      have l: "list_ex P [ch] = P ch" for P by simp
      show ?thesis unfolding e l by (rule one)
    qed
  qed
qed

lemma mempool_force_update_all:
  "force_update mempool_env None fresh_verifier =
     (True, fresh_verifier
        \<lparr>cached_blocks := [(''bitcoin'',
            \<lparr>chain = ''bitcoin'', block_number = 800000,
             block_hash = ''00000000000000000002a7c4'', block_time = 1690000000,
             retrieved_at = 1700000000, confirmations = 0\<rparr>)],
         last_update := [(''bitcoin'', 1700000000)],
         total_requests := 2, successful_requests := 1, failed_requests := 1\<rparr>)"
  by (simp add: force_update_def update_all_chains_def update_chain_def run_handler_def
      chain_handlers_def get_bitcoin_info_def get_ethereum_info_def block_from_def
      block_from_now_def mempool_env_def fresh_verifier_def Let_def)

theorem force_update_true_iff_refreshed_or_lock_held_witness:
  "fst (force_update mempool_env None fresh_verifier) \<and>
   list_ex (\<lambda>ch. \<not> update_lock_acquired mempool_env ch \<or> run_handler mempool_env ch \<noteq> None)
     (attempted_chains None fresh_verifier) \<and>
   successful_requests fresh_verifier
     < successful_requests (snd (force_update mempool_env None fresh_verifier)) \<and>
   \<not> fst (force_update unreachable_env (Some ''bitcoin'') fresh_verifier)"
proof -
  have "\<not> fst (force_update unreachable_env (Some ''bitcoin'') fresh_verifier)"
    by (simp add: force_update_def update_chain_def run_handler_def chain_handlers_def
        get_bitcoin_info_def block_from_def block_from_now_def unreachable_env_def Let_def)
  then show ?thesis
    using force_update_true_iff_refreshed_or_lock_held[of mempool_env None fresh_verifier]
    by (simp add: mempool_force_update_all)
qed

text \<open>
  Claim C5 as stated fails: while another thread holds the update lock,
  \<open>force_update\<close> for bitcoin returns true although no refresh completed, nothing was
  fetched and the cache is as before.
\<close>

theorem force_update_true_without_refresh:
  "\<not> (fst (force_update busy_env (Some ''bitcoin'') fresh_verifier) \<longleftrightarrow>
        successful_requests fresh_verifier
          < successful_requests (snd (force_update busy_env (Some ''bitcoin'') fresh_verifier)))
   \<and> cached_blocks (snd (force_update busy_env (Some ''bitcoin'') fresh_verifier))
       = cached_blocks fresh_verifier"
  by (simp add: force_update_def update_chain_def busy_env_def fresh_verifier_def)

lemma unreachable_run_handler:
  "list_all (\<lambda>url. endpoint_block env url = None) (handler_endpoints ch) \<Longrightarrow>
     run_handler env ch = None"
  by (auto simp: run_handler_def chain_handlers_def handler_endpoints_def get_bitcoin_info_def
        get_ethereum_info_def get_litecoin_info_def block_from_def block_from_now_def
      split: if_splits)

lemma failed_update_chain:
  "run_handler env ch = None \<Longrightarrow>
     cached_blocks (snd (update_chain env ch bv)) = cached_blocks bv \<and>
     (update_lock_acquired env ch \<longrightarrow> \<not> fst (update_chain env ch bv))"
  by (simp add: update_chain_def Let_def)

text \<open>
  Claim C6, as amended. When every endpoint of a chain fails, an update attempt leaves the
  whole cache, and so the chain's record, as it was. For a chain given by a non-empty
  name that has no record, with every endpoint failing, two consecutive \<open>force_update\<close>
  calls for it that each acquire the update lock return false both times, and
  \<open>get_blockchain_info\<close> still finds no record.
\<close>

theorem failed_refresh_leaves_cache_untouched:
  assumes "list_all (\<lambda>url. endpoint_block env1 url = None) (handler_endpoints ch)"
    and "list_all (\<lambda>url. endpoint_block env2 url = None) (handler_endpoints ch)"
  shows "cached_blocks (snd (update_chain env1 ch bv)) = cached_blocks bv \<and>
    (ch \<noteq> [] \<and> update_lock_acquired env1 ch \<and> update_lock_acquired env2 ch \<and>
     get_blockchain_info bv ch = None \<longrightarrow>
       \<not> fst (force_update env1 (Some ch) bv) \<and>
       \<not> fst (force_update env2 (Some ch) (snd (force_update env1 (Some ch) bv))) \<and>
       get_blockchain_info
         (snd (force_update env2 (Some ch) (snd (force_update env1 (Some ch) bv)))) ch = None)"
  using failed_update_chain[OF unreachable_run_handler[OF assms(1)]]
        failed_update_chain[OF unreachable_run_handler[OF assms(2)]]
  by (simp add: force_update_def get_blockchain_info_def)

theorem failed_refresh_leaves_cache_untouched_witness:
  "list_all (\<lambda>url. endpoint_block unreachable_env url = None) (handler_endpoints ''bitcoin'') \<and>
   update_lock_acquired unreachable_env ''bitcoin'' \<and>
   get_blockchain_info fresh_verifier ''bitcoin'' = None \<and>
   cached_blocks (snd (update_chain unreachable_env ''bitcoin'' fresh_verifier)) = [] \<and>
   \<not> fst (force_update unreachable_env (Some ''bitcoin'') fresh_verifier) \<and>
   \<not> fst (force_update unreachable_env (Some ''bitcoin'')
            (snd (force_update unreachable_env (Some ''bitcoin'') fresh_verifier))) \<and>
   get_blockchain_info
     (snd (force_update unreachable_env (Some ''bitcoin'')
       (snd (force_update unreachable_env (Some ''bitcoin'') fresh_verifier)))) ''bitcoin'' = None"
proof -
  have h: "list_all (\<lambda>url. endpoint_block unreachable_env url = None)
             (handler_endpoints ''bitcoin'')"
    by (simp add: unreachable_env_def handler_endpoints_def)
  have l: "update_lock_acquired unreachable_env ''bitcoin''"
    by (simp add: unreachable_env_def)
  have g: "get_blockchain_info fresh_verifier ''bitcoin'' = None"
    and c: "cached_blocks fresh_verifier = []"
    by (simp_all add: get_blockchain_info_def fresh_verifier_def)
  show ?thesis
    using failed_refresh_leaves_cache_untouched[OF h h, of fresh_verifier] h l g c by simp
qed

text \<open>
  Claim C6 as stated fails: with no record for bitcoin and every endpoint unreachable, a
  \<open>force_update\<close> for bitcoin that finds the update lock held returns true.
\<close>

theorem force_update_unreachable_returns_true:
  "endpoint_block busy_env = (\<lambda>url. None) \<and>
   get_blockchain_info fresh_verifier ''bitcoin'' = None \<and>
   fst (force_update busy_env (Some ''bitcoin'') fresh_verifier)"
  by (simp add: force_update_def update_chain_def busy_env_def fresh_verifier_def
      get_blockchain_info_def)

section \<open>Properties of the identity manager\<close>

lemma generate_identity_hash_env:
  "generate_identity_hash (env\<lparr>files := fs, id_clock := t\<rparr>) im = generate_identity_hash env im"
  by (simp add: generate_identity_hash_def Let_def split: option.splits)

lemma generate_identity_hash_cache:
  "generate_identity_hash env (im\<lparr>cached_hash := c, last_hash_time := t, hash_generations := n\<rparr>)
     = generate_identity_hash env im"
  by (simp add: generate_identity_hash_def Let_def split: option.splits)

lemma get_identity_hash_cases:
  "get_identity_hash env im = (h, im') \<Longrightarrow>
     (cached_hash im = Some h \<and> h \<noteq> [] \<and> im' = im) \<or>
     (h = generate_identity_hash env im \<and>
      im' = im\<lparr>cached_hash := Some h, last_hash_time := id_clock env,
                hash_generations := hash_generations im + 1\<rparr>)"
  by (auto simp: get_identity_hash_def Let_def split: option.splits if_splits)

lemma tracking_manager_value:
  "tracking_manager =
     \<lparr>im_settings = demo_identity_settings,
      identity_info =
        Some \<lparr>info_identity_hash = ''sha256(created:2024-01-01T00:00:00)'',
              creation_time = ''2024-01-01T00:00:00'', system_info = [],
              file_hashes = [(''notes.txt'', ''sha256(first draft)'')],
              custom_data = [], version = ''1.0''\<rparr>,
      cached_hash = None, last_hash_time = 0, hash_generations = 0,
      file_reads = 1, system_info_queries = 0\<rparr>"
  by code_simp

text \<open>
  Claim C7 does not hold of the code. The digest is computed from the stored identity
  information only, and nothing in \<open>get_identity_hash\<close> stores a new file hash: whatever
  happens to the files and however much time passes between two calls, the second call
  returns the digest of the first. (For a file added with \<open>add_file_to_identity\<close> the
  change is not even looked for; for the configured identity file it is detected and the
  digest recomputed, from the old stored hash.)
\<close>

theorem digest_unchanged_by_file_modification:
  assumes "cache_coherent env im"
  shows "fst (get_identity_hash (env\<lparr>files := fs', id_clock := t'\<rparr>)
                (snd (get_identity_hash env im)))
           = fst (get_identity_hash env im)"
proof -
  obtain h im1 where g1: "get_identity_hash env im = (h, im1)"
    by (cases "get_identity_hash env im")
  obtain h2 im2 where
    g2: "get_identity_hash (env\<lparr>files := fs', id_clock := t'\<rparr>) im1 = (h2, im2)"
    by (cases "get_identity_hash (env\<lparr>files := fs', id_clock := t'\<rparr>) im1")
  have gen: "h = generate_identity_hash env im"
    using get_identity_hash_cases[OF g1] assms by (auto simp: cache_coherent_def)
  have c1: "cached_hash im1 = Some h"
    using get_identity_hash_cases[OF g1] by auto
  have gen1: "generate_identity_hash env im1 = generate_identity_hash env im"
    using get_identity_hash_cases[OF g1] by (auto simp: generate_identity_hash_cache)
  have "h2 = h"
    using get_identity_hash_cases[OF g2] c1 gen gen1
    by (auto simp: generate_identity_hash_env)
  with g1 g2 show ?thesis by simp
qed

text \<open>
  The tracked file is rewritten ten seconds after the first digest, inside the freshness
  window: its content hash is another one, the digest is the same.
\<close>

theorem digest_unchanged_by_file_modification_witness:
  "cache_coherent (demo_id_env ''first draft'' 1000) tracking_manager \<and>
   map_of (file_hashes (case identity_info tracking_manager of Some info \<Rightarrow> info))
     ''notes.txt'' = Some ''sha256(first draft)'' \<and>
   calculate_file_hash (demo_id_env ''second draft'' 1010) demo_identity_settings
     ''/data/notes.txt'' = ''sha256(second draft)'' \<and>
   fst (get_identity_hash (demo_id_env ''second draft'' 1010)
          (snd (get_identity_hash (demo_id_env ''first draft'' 1000) tracking_manager)))
     = fst (get_identity_hash (demo_id_env ''first draft'' 1000) tracking_manager)"
proof -
  have c: "cache_coherent (demo_id_env ''first draft'' 1000) tracking_manager"
    by (simp add: cache_coherent_def tracking_manager_value)
  have e: "(demo_id_env ''first draft'' 1000)
             \<lparr>files := files (demo_id_env ''second draft'' 1010), id_clock := 1010\<rparr>
           = demo_id_env ''second draft'' 1010"
    by (simp add: demo_id_env_def)
  have h: "calculate_file_hash (demo_id_env ''second draft'' 1010) demo_identity_settings
             ''/data/notes.txt'' = ''sha256(second draft)''"
    by (simp add: calculate_file_hash_def demo_id_env_def demo_identity_settings_def)
  show ?thesis
    using digest_unchanged_by_file_modification[OF c,
        where fs' = "files (demo_id_env ''second draft'' 1010)" and t' = 1010] c h
    by (simp add: e) (simp add: tracking_manager_value)
qed

lemma add_file_missing:
  "files env file_path = Missing \<Longrightarrow> add_file_to_identity env file_path alias im = (False, im)"
  by (simp add: add_file_to_identity_def path_exists_def)

text \<open>
  Claim C8 does not hold of the code. For a file that exists but cannot be read,
  \<open>_calculate_file_hash\<close> catches the exception and returns a text that starts with
  \<open>error:\<close>; \<open>add_file_to_identity\<close> stores that text as the file's hash and returns true.
\<close>

theorem add_file_unreadable_returns_true:
  assumes "files env file_path = Unreadable msg"
    and "identity_info im = Some info"
    and "hashlib_new env (hash_algorithm (im_settings im)) = Some hash_obj"
  shows "add_file_to_identity env file_path alias im =
     (True, im\<lparr>identity_info :=
                  Some (info\<lparr>file_hashes :=
                    AList.update (identity_key alias file_path) (''error:'' @ msg)
                      (file_hashes info)\<rparr>),
               cached_hash := None,
               file_reads := file_reads im + 1\<rparr>)"
  using assms
  by (simp add: add_file_to_identity_def path_exists_def calculate_file_hash_def Let_def)

theorem add_file_unreadable_returns_true_witness:
  "files (demo_id_env ''first draft'' 1000) ''/data/locked.bin''
     = Unreadable ''[Errno 13] Permission denied'' \<and>
   fst (add_file_to_identity (demo_id_env ''first draft'' 1000) ''/data/locked.bin'' None
          tracking_manager) \<and>
   map_of (file_hashes (case identity_info (snd (add_file_to_identity
       (demo_id_env ''first draft'' 1000) ''/data/locked.bin'' None tracking_manager)) of
       Some info \<Rightarrow> info)) ''locked.bin'' = Some ''error:[Errno 13] Permission denied''"
proof -
  have f: "files (demo_id_env ''first draft'' 1000) ''/data/locked.bin''
             = Unreadable ''[Errno 13] Permission denied''"
    by (simp add: demo_id_env_def)
  have i: "identity_info tracking_manager =
             Some \<lparr>info_identity_hash = ''sha256(created:2024-01-01T00:00:00)'',
                   creation_time = ''2024-01-01T00:00:00'', system_info = [],
                   file_hashes = [(''notes.txt'', ''sha256(first draft)'')],
                   custom_data = [], version = ''1.0''\<rparr>"
    by (simp add: tracking_manager_value)
  have n: "hashlib_new (demo_id_env ''first draft'' 1000)
             (hash_algorithm (im_settings tracking_manager))
           = Some (\<lambda>s. ''sha256('' @ s @ '')'')"
    by (simp add: tracking_manager_value demo_id_env_def demo_identity_settings_def)
  have k: "identity_key None ''/data/locked.bin'' = ''locked.bin''"
    by (simp add: identity_key_def basename_def)
  show ?thesis
    using add_file_unreadable_returns_true[OF f i n, of None] f
    by (simp add: k)
qed

section \<open>Properties of the protocol core\<close>

lemma loads_empty_object: "json_loads ''{}'' = Inr (JDict [])"
  by code_simp

lemma loads_empty_array: "json_loads ''[]'' = Inr (JList [])"
  by code_simp

text \<open>
  Claim C1 does not hold of the code. \<open>verify_qr_data\<close> catches \<open>JSONDecodeError\<close>,
  \<open>ValueError\<close> and \<open>KeyError\<close>; a well-formed JSON text that is not a packet makes
  \<open>QRData(**data)\<close> raise \<open>TypeError\<close>, which leaves the function. So it does for the
  texts \<open>{}\<close> (the required fields are missing) and \<open>[]\<close> (not a mapping), whatever the
  state of the verifier.
\<close>

theorem verify_qr_data_raises_TypeError:
  "verify_qr_data (env\<lparr>loads := json_loads\<rparr>) q ''{}'' = Inl TypeError \<and>
   verify_qr_data (env\<lparr>loads := json_loads\<rparr>) q ''[]'' = Inl TypeError"
  by (simp add: verify_qr_data_def from_json_def loads_empty_object loads_empty_array
      QRData_of_kwargs_def rejected_def)

lemma generate_single_qr_cases:
  "generate_single_qr env ud q = (r, q') \<Longrightarrow>
     (\<exists>e. r = Inl e \<and> q' = q) \<or>
     (\<exists>p img. r = Inr (p, img) \<and> sequence_number p = JInt (qrlp_sequence_number q) \<and>
        qrlp_sequence_number q' = qrlp_sequence_number q + 1)"
  by (auto simp: generate_single_qr_def Let_def split: sum.splits)

lemma generate_many_positions:
  "generate_many calls q = (ps, q') \<Longrightarrow>
     (\<forall>i < length ps. sequence_number (ps ! i) = JInt (qrlp_sequence_number q + int i)) \<and>
     qrlp_sequence_number q' = qrlp_sequence_number q + int (length ps)"
proof (induction calls arbitrary: q ps q')
  case Nil
  then show ?case by simp
next
  case (Cons call calls)
  obtain r q1 where g: "generate_single_qr (fst call) (snd call) q = (r, q1)"
    by (cases "generate_single_qr (fst call) (snd call) q")
  from generate_single_qr_cases[OF g] show ?case
  proof
    assume "\<exists>e. r = Inl e \<and> q1 = q"
    then obtain e where e: "r = Inl e" "q1 = q" by blast
    with Cons.prems g have "generate_many calls q = (ps, q')" by simp
    from Cons.IH[OF this] show ?thesis .
  next
    assume "\<exists>p img. r = Inr (p, img) \<and> sequence_number p = JInt (qrlp_sequence_number q) \<and>
        qrlp_sequence_number q1 = qrlp_sequence_number q + 1"
    then obtain p img where p: "r = Inr (p, img)"
      "sequence_number p = JInt (qrlp_sequence_number q)"
      "qrlp_sequence_number q1 = qrlp_sequence_number q + 1" by blast
    obtain ps1 q2 where m: "generate_many calls q1 = (ps1, q2)"
      by (cases "generate_many calls q1")
    with Cons.prems g p have eq: "ps = p # ps1" "q' = q2" by simp_all
    note ih = Cons.IH[OF m]
    show ?thesis
    proof (intro conjI allI impI)
      fix i assume "i < length ps"
      then show "sequence_number (ps ! i) = JInt (qrlp_sequence_number q + int i)"
        using ih p eq by (cases i) auto
    next
      show "qrlp_sequence_number q' = qrlp_sequence_number q + int (length ps)"
        using ih p eq by simp
    qed
  qed
qed

text \<open>
  Claim C2. In the packets that successive \<open>generate_single_qr\<close> calls on one protocol
  object return, each packet's sequence number is one more than that of the packet
  before, and the sequence numbers are strictly increasing. (A call that raises returns no
  packet and leaves the counter as it was.)
\<close>

theorem sequence_numbers_consecutive:
  assumes "generate_many calls q = (ps, q')"
  shows "(\<forall>i. Suc i < length ps \<longrightarrow>
            (\<exists>n. sequence_number (ps ! i) = JInt n \<and>
                 sequence_number (ps ! Suc i) = JInt (n + 1))) \<and>
         (\<forall>i j. i < j \<and> j < length ps \<longrightarrow>
            (\<exists>m n. sequence_number (ps ! i) = JInt m \<and>
                   sequence_number (ps ! j) = JInt n \<and> m < n))"
  using generate_many_positions[OF assms] by auto

lemma demo_calls_packets:
  "generate_many demo_calls (QRLiveProtocol_init 30) =
   ([\<lparr>timestamp = JStr ''2024-01-01T00:00:00+00:00'', identity_hash = JStr ''abc123'',
      blockchain_hashes = JDict [(''bitcoin'', JStr ''00000000000000000002a7c4'')],
      time_server_verification = JDict [], user_data = JNull, sequence_number = JInt 0\<rparr>,
     \<lparr>timestamp = JStr ''2024-01-01T00:00:10+00:00'', identity_hash = JStr ''abc123'',
      blockchain_hashes = JDict [(''bitcoin'', JStr ''00000000000000000002a7c4'')],
      time_server_verification = JDict [], user_data = JNull, sequence_number = JInt 1\<rparr>],
    \<lparr>qrlp_sequence_number = 2,
     current_qr_data =
       Some \<lparr>timestamp = JStr ''2024-01-01T00:00:10+00:00'', identity_hash = JStr ''abc123'',
             blockchain_hashes = JDict [(''bitcoin'', JStr ''00000000000000000002a7c4'')],
             time_server_verification = JDict [], user_data = JNull,
             sequence_number = JInt 1\<rparr>,
     max_time_drift = 30\<rparr>)"
  by code_simp

theorem sequence_numbers_consecutive_witness:
  "length (fst (generate_many demo_calls (QRLiveProtocol_init 30))) = 2 \<and>
   sequence_number (fst (generate_many demo_calls (QRLiveProtocol_init 30)) ! 0) = JInt 0 \<and>
   sequence_number (fst (generate_many demo_calls (QRLiveProtocol_init 30)) ! Suc 0) = JInt 1"
  using sequence_numbers_consecutive[OF demo_calls_packets]
  by (simp add: demo_calls_packets)

text \<open>
  Claim C4. Deserialising the serialised form of a packet gives the packet back, field by
  field, whenever the JSON library reads the text it printed for the packet's dictionary
  as that dictionary.
\<close>

theorem from_json_to_json_roundtrip:
  assumes "lds (dmp (asdict p)) = Inr (asdict p)"
  shows "from_json lds (to_json dmp p) = Inr p"
  using assms
  by (simp add: from_json_def to_json_def asdict_def QRData_of_kwargs_def field_names_def)

lemma demo_packet_roundtrip:
  "json_loads (json_dumps (asdict (demo_packet (JStr ''2024-01-01T00:00:00+00:00'') (JDict []))))
     = Inr (asdict (demo_packet (JStr ''2024-01-01T00:00:00+00:00'') (JDict [])))"
  by code_simp

theorem from_json_to_json_roundtrip_witness:
  "blockchain_hashes (demo_packet (JStr ''2024-01-01T00:00:00+00:00'') (JDict [])) = JDict [] \<and>
   user_data (demo_packet (JStr ''2024-01-01T00:00:00+00:00'') (JDict [])) = JNull \<and>
   from_json json_loads
     (to_json json_dumps (demo_packet (JStr ''2024-01-01T00:00:00+00:00'') (JDict [])))
     = Inr (demo_packet (JStr ''2024-01-01T00:00:00+00:00'') (JDict []))"
  using from_json_to_json_roundtrip[of json_loads json_dumps
      "demo_packet (JStr ''2024-01-01T00:00:00+00:00'') (JDict [])", OF demo_packet_roundtrip]
  by (simp add: demo_packet_def)

text \<open>
  Claim C9, as amended. For a packet that \<open>from_json\<close> accepts and whose
  \<open>blockchain_hashes\<close> is the empty map: if its timestamp is a string that
  \<open>datetime.fromisoformat\<close> reads as a timezone-aware datetime, \<open>verify_qr_data\<close> returns
  \<open>valid_json\<close> true, \<open>blockchain_verified\<close> false, \<open>identity_verified\<close> as the comparison
  with the current identity hash and \<open>time_verified\<close> as the comparison of the time
  difference with the tolerance; and whenever \<open>verify_qr_data\<close> returns a result for such
  a packet, \<open>blockchain_verified\<close> is false.
\<close>

theorem empty_hashes_not_verified:
  assumes "from_json (loads env) s = Inr p"
    and "blockchain_hashes p = JDict []"
  shows "(\<forall>ts t. timestamp p = JStr ts \<and> fromisoformat env ts = Some (Aware t) \<longrightarrow>
           verify_qr_data env q s =
             Inr \<lparr>valid_json = True, verify_error = None,
                  identity_verified = (identity_hash p = JStr (expected_identity env)),
                  time_verified = (\<bar>of_int (utc_now env - t) / 1000000\<bar> \<le> max_time_drift q),
                  blockchain_verified = False\<rparr>) \<and>
         (\<forall>r. verify_qr_data env q s = Inr r \<longrightarrow> \<not> blockchain_verified r)"
  using assms
  by (auto simp: verify_qr_data_def Let_def rejected_def
      split: json.splits option.splits pydatetime.splits if_splits)

lemma demo_packet_parsed:
  "from_json (loads demo_verify_env)
     (to_json json_dumps (demo_packet (JStr ''2024-01-01T00:00:00+00:00'') (JDict [])))
   = Inr (demo_packet (JStr ''2024-01-01T00:00:00+00:00'') (JDict []))"
  by code_simp

theorem empty_hashes_not_verified_witness:
  "blockchain_hashes (demo_packet (JStr ''2024-01-01T00:00:00+00:00'') (JDict [])) = JDict [] \<and>
   fromisoformat demo_verify_env ''2024-01-01T00:00:00+00:00'' = Some (Aware 1704067200000000) \<and>
   verify_qr_data demo_verify_env (QRLiveProtocol_init 30)
     (to_json json_dumps (demo_packet (JStr ''2024-01-01T00:00:00+00:00'') (JDict [])))
   = Inr \<lparr>valid_json = True, verify_error = None, identity_verified = True,
          time_verified = True, blockchain_verified = False\<rparr>"
proof -
  have b: "blockchain_hashes (demo_packet (JStr ''2024-01-01T00:00:00+00:00'') (JDict []))
             = JDict []"
    by (simp add: demo_packet_def)
  show ?thesis
    using empty_hashes_not_verified[OF demo_packet_parsed b, of "QRLiveProtocol_init 30"] b
    by (simp add: demo_packet_def demo_verify_env_def demo_fromisoformat_def
        QRLiveProtocol_init_def)
qed

text \<open>
  Claim C9 as stated fails: a packet that \<open>from_json\<close> accepts, with the empty map of
  block hashes and the verifier's own identity hash, but with a timestamp that
  \<open>datetime.fromisoformat\<close> rejects, is reported with \<open>valid_json\<close> false and
  \<open>identity_verified\<close> false.
\<close>

theorem verify_bad_timestamp_reports_invalid:
  "from_json (loads demo_verify_env)
     (to_json json_dumps (demo_packet (JStr ''yesterday'') (JDict [])))
     = Inr (demo_packet (JStr ''yesterday'') (JDict [])) \<and>
   blockchain_hashes (demo_packet (JStr ''yesterday'') (JDict [])) = JDict [] \<and>
   identity_hash (demo_packet (JStr ''yesterday'') (JDict []))
     = JStr (expected_identity demo_verify_env) \<and>
   verify_qr_data demo_verify_env (QRLiveProtocol_init 30)
     (to_json json_dumps (demo_packet (JStr ''yesterday'') (JDict [])))
   = Inr \<lparr>valid_json = False, verify_error = Some ValueError, identity_verified = False,
          time_verified = False, blockchain_verified = False\<rparr>"
  by code_simp

end
